theory Spec2Isabelle
  imports Complex_Main
begin

section \<open>JavaScript numbers\<close>

text \<open>
  Every number of \<^verbatim>\<open>physics.js\<close> is a JavaScript number. The code tests for the
  special values itself (\<^verbatim>\<open>isNaN\<close>, \<^verbatim>\<open>isFinite\<close>, comparisons against
  \<^verbatim>\<open>Infinity\<close>), so they are part of the model: a number is a finite value,
  \<^verbatim>\<open>Infinity\<close>, \<^verbatim>\<open>-Infinity\<close> or \<^verbatim>\<open>NaN\<close>, and the operations follow
  IEEE 754 on the special values. Finite values are real numbers. A sum, product or
  quotient of finite values whose exact result leaves the range of the doubles is
  \<^verbatim>\<open>Infinity\<close> or \<^verbatim>\<open>-Infinity\<close>, as in IEEE 754 with rounding to nearest: from
  \<^verbatim>\<open>2^1024 - 2^970\<close> on in magnitude; this is \<open>ofReal\<close>. Inside the range the result
  of an operation is exact, with one exception: the counter of a scan loop
  \<^verbatim>\<open>x += step\<close>, whose rounding accumulates and decides which points the loop visits,
  is a double throughout. Its first value, the bound it is compared with and every sum
  \<^verbatim>\<open>x + step\<close> are rounded to the nearest double, by \<open>fl\<close>, \<open>jaddRounded\<close> and
  \<open>jsubRounded\<close>. The sign of zero is not modelled.
\<close>

datatype jsnum = Num real | PosInf | NegInf | NaN

definition overflowLimit :: real where
  "overflowLimit = 2 ^ 1024 - 2 ^ 970"

definition ofReal :: "real \<Rightarrow> jsnum" where
  "ofReal r = (if overflowLimit \<le> r then PosInf else if r \<le> - overflowLimit then NegInf else Num r)"

fun isNaN :: "jsnum \<Rightarrow> bool" where
  "isNaN NaN = True"
| "isNaN _ = False"

fun isFinite :: "jsnum \<Rightarrow> bool" where
  "isFinite (Num _) = True"
| "isFinite _ = False"

fun jneg :: "jsnum \<Rightarrow> jsnum" where
  "jneg (Num a) = Num (- a)"
| "jneg PosInf = NegInf"
| "jneg NegInf = PosInf"
| "jneg NaN = NaN"

fun jadd :: "jsnum \<Rightarrow> jsnum \<Rightarrow> jsnum" where
  "jadd (Num a) (Num b) = ofReal (a + b)"
| "jadd NaN _ = NaN"
| "jadd _ NaN = NaN"
| "jadd PosInf NegInf = NaN"
| "jadd NegInf PosInf = NaN"
| "jadd PosInf _ = PosInf"
| "jadd _ PosInf = PosInf"
| "jadd NegInf _ = NegInf"
| "jadd _ NegInf = NegInf"

definition jsub :: "jsnum \<Rightarrow> jsnum \<Rightarrow> jsnum" where
  "jsub a b = jadd a (jneg b)"

fun jmul :: "jsnum \<Rightarrow> jsnum \<Rightarrow> jsnum" where
  "jmul (Num a) (Num b) = ofReal (a * b)"
| "jmul NaN _ = NaN"
| "jmul _ NaN = NaN"
| "jmul (Num a) PosInf = (if 0 < a then PosInf else if a < 0 then NegInf else NaN)"
| "jmul (Num a) NegInf = (if 0 < a then NegInf else if a < 0 then PosInf else NaN)"
| "jmul PosInf (Num b) = (if 0 < b then PosInf else if b < 0 then NegInf else NaN)"
| "jmul NegInf (Num b) = (if 0 < b then NegInf else if b < 0 then PosInf else NaN)"
| "jmul PosInf PosInf = PosInf"
| "jmul PosInf NegInf = NegInf"
| "jmul NegInf PosInf = NegInf"
| "jmul NegInf NegInf = PosInf"

text \<open>Division; a zero divisor counts as positive zero.\<close>

fun jdiv :: "jsnum \<Rightarrow> jsnum \<Rightarrow> jsnum" where
  "jdiv (Num a) (Num b) =
     (if b = 0 then (if 0 < a then PosInf else if a < 0 then NegInf else NaN)
      else ofReal (a / b))"
| "jdiv NaN _ = NaN"
| "jdiv _ NaN = NaN"
| "jdiv (Num a) _ = Num 0"
| "jdiv PosInf (Num b) = (if 0 \<le> b then PosInf else NegInf)"
| "jdiv NegInf (Num b) = (if 0 \<le> b then NegInf else PosInf)"
| "jdiv _ _ = NaN"

text \<open>\<^verbatim>\<open>Math.sqrt\<close>, \<^verbatim>\<open>Math.abs\<close> and \<^verbatim>\<open>v ** 2\<close>.\<close>

fun jsqrt :: "jsnum \<Rightarrow> jsnum" where
  "jsqrt (Num a) = (if 0 \<le> a then Num (sqrt a) else NaN)"
| "jsqrt PosInf = PosInf"
| "jsqrt _ = NaN"

fun jabs :: "jsnum \<Rightarrow> jsnum" where
  "jabs (Num a) = Num \<bar>a\<bar>"
| "jabs NaN = NaN"
| "jabs _ = PosInf"

definition jsquare :: "jsnum \<Rightarrow> jsnum" where
  "jsquare a = jmul a a"

text \<open>The comparisons \<^verbatim>\<open><\<close> and \<^verbatim>\<open><=\<close>: false as soon as an operand is NaN.\<close>

fun jlt :: "jsnum \<Rightarrow> jsnum \<Rightarrow> bool" where
  "jlt (Num a) (Num b) = (a < b)"
| "jlt NaN _ = False"
| "jlt _ NaN = False"
| "jlt _ NegInf = False"
| "jlt PosInf _ = False"
| "jlt _ _ = True"

fun jle :: "jsnum \<Rightarrow> jsnum \<Rightarrow> bool" where
  "jle (Num a) (Num b) = (a \<le> b)"
| "jle NaN _ = False"
| "jle _ NaN = False"
| "jle NegInf _ = True"
| "jle _ PosInf = True"
| "jle _ _ = False"

definition jgt :: "jsnum \<Rightarrow> jsnum \<Rightarrow> bool" where
  "jgt a b = jlt b a"

definition jge :: "jsnum \<Rightarrow> jsnum \<Rightarrow> bool" where
  "jge a b = jle b a"

text \<open>\<^verbatim>\<open>a !== b\<close> on numbers: NaN differs from everything, itself included.\<close>

definition jne :: "jsnum \<Rightarrow> jsnum \<Rightarrow> bool" where
  "jne a b = (isNaN a \<or> isNaN b \<or> a \<noteq> b)"

text \<open>\<^verbatim>\<open>Math.min\<close> and \<^verbatim>\<open>Math.max\<close> of two numbers: NaN if either is NaN.\<close>

definition jmin :: "jsnum \<Rightarrow> jsnum \<Rightarrow> jsnum" where
  "jmin a b = (if isNaN a \<or> isNaN b then NaN else if jlt b a then b else a)"

definition jmax :: "jsnum \<Rightarrow> jsnum \<Rightarrow> jsnum" where
  "jmax a b = (if isNaN a \<or> isNaN b then NaN else if jlt a b then b else a)"

text \<open>A number in a boolean position (\<^verbatim>\<open>speed || ...\<close>): 0 and NaN are falsy.\<close>

definition truthy :: "jsnum \<Rightarrow> bool" where
  "truthy a = (\<not> isNaN a \<and> a \<noteq> Num 0)"

text \<open>
  The double nearest to a real number, ties to the even significand: \<open>ulp r\<close> is the
  distance between neighbouring doubles at \<open>r\<close> (52 fraction bits, least exponent
  -1022, below which the doubles are subnormal), and \<open>fl r\<close> is the multiple of
  \<open>ulp r\<close> nearest to \<open>r\<close>, or an infinity beyond the range. \<open>fl 0.05\<close> is the value
  of the literal \<^verbatim>\<open>0.05\<close>; \<open>jaddRounded\<close> and \<open>jsubRounded\<close> are \<^verbatim>\<open>+\<close> and \<^verbatim>\<open>-\<close>
  on doubles.
\<close>

definition roundEven :: "real \<Rightarrow> int" where
  "roundEven q =
     (let f = \<lfloor>q\<rfloor>
      in if q - of_int f < 1 / 2 then f
         else if 1 / 2 < q - of_int f then f + 1
         else if even f then f else f + 1)"

definition ulp :: "real \<Rightarrow> real" where
  "ulp r = 2 powr (of_int (max (- 1022) \<lfloor>log 2 \<bar>r\<bar>\<rfloor>) - 52)"

definition fl :: "real \<Rightarrow> jsnum" where
  "fl r = (if r = 0 then Num 0 else ofReal (of_int (roundEven (r / ulp r)) * ulp r))"

definition jaddRounded :: "jsnum \<Rightarrow> jsnum \<Rightarrow> jsnum" where
  "jaddRounded a b = (case jadd a b of Num r \<Rightarrow> fl r | v \<Rightarrow> v)"

definition jsubRounded :: "jsnum \<Rightarrow> jsnum \<Rightarrow> jsnum" where
  "jsubRounded a b = jaddRounded a (jneg b)"

section \<open>Data\<close>

text \<open>A point \<^verbatim>\<open>{x, y}\<close>.\<close>

record vec2 =
  xcoord :: jsnum
  ycoord :: jsnum

text \<open>
  An equation object, as the physics reads it: its \<^verbatim>\<open>type\<close> tag, \<^verbatim>\<open>evaluate\<close>
  (None when the call throws) and \<^verbatim>\<open>getPoints\<close> with the five arguments the physics
  passes to an implicit curve. \<open>other_type\<close> stands for every tag the switches do not
  list.
\<close>

datatype eqkind = explicit_y | piecewise | explicit_x | implicit | other_type

record equation =
  eqtype :: eqkind
  evaluate :: "jsnum \<Rightarrow> jsnum option"
  getPoints :: "jsnum \<Rightarrow> jsnum \<Rightarrow> jsnum \<Rightarrow> jsnum \<Rightarrow> jsnum \<Rightarrow> vec2 list"

text \<open>The result \<^verbatim>\<open>{x, y, distance}\<close> of a closest-point query.\<close>

record closest =
  cp_x :: jsnum
  cp_y :: jsnum
  cp_distance :: jsnum

text \<open>A candidate \<^verbatim>\<open>{equation, closestPoint, distance}\<close>.\<close>

record pathData =
  equation :: equation
  closestPoint :: closest
  pd_distance :: jsnum

record star =
  star_x :: jsnum
  star_y :: jsnum
  star_radius :: jsnum
  collected :: bool

record bounds =
  minX :: jsnum
  maxX :: jsnum
  minY :: jsnum
  maxY :: jsnum

record PhysicsEngine =
  gravity :: jsnum
  friction :: jsnum
  bounceThreshold :: jsnum
  pathSnapStrength :: jsnum
  pathFollowSpeed :: jsnum

text \<open>
  A marble. \<open>stars\<close> is the property \<^verbatim>\<open>this.stars\<close> that \<^verbatim>\<open>update\<close> reads and the
  constructor does not set: None while it is undefined.
\<close>

record Marble =
  position :: vec2
  velocity :: vec2
  radius :: jsnum
  color :: string
  onPath :: bool
  currentEquation :: "equation option"
  trail :: "vec2 list"
  maxTrailLength :: nat
  pathThreshold :: jsnum
  timeOffPath :: nat
  stars :: "star list option"

section \<open>PhysicsEngine\<close>

definition PhysicsEngine_new :: PhysicsEngine where
  "PhysicsEngine_new =
     \<lparr>gravity = Num (- 0.15), friction = Num 0.98, bounceThreshold = Num 0.5,
      pathSnapStrength = Num 0.3, pathFollowSpeed = Num 0.12\<rparr>"

definition applyGravity :: "PhysicsEngine \<Rightarrow> Marble \<Rightarrow> Marble" where
  "applyGravity physics marble =
     marble\<lparr>velocity := (velocity marble)\<lparr>ycoord := jadd (ycoord (velocity marble)) (gravity physics)\<rparr>\<rparr>"

definition applyFriction :: "PhysicsEngine \<Rightarrow> Marble \<Rightarrow> Marble" where
  "applyFriction physics marble =
     marble\<lparr>velocity :=
       \<lparr>xcoord = jmul (xcoord (velocity marble)) (friction physics),
        ycoord = jmul (ycoord (velocity marble)) (friction physics)\<rparr>\<rparr>"

definition updatePosition :: "PhysicsEngine \<Rightarrow> Marble \<Rightarrow> jsnum \<Rightarrow> Marble" where
  "updatePosition physics marble dt =
     marble\<lparr>position :=
       \<lparr>xcoord = jadd (xcoord (position marble)) (jmul (xcoord (velocity marble)) dt),
        ycoord = jadd (ycoord (position marble)) (jmul (ycoord (velocity marble)) dt)\<rparr>\<rparr>"

definition checkBounds :: "PhysicsEngine \<Rightarrow> Marble \<Rightarrow> bounds \<Rightarrow> bool" where
  "checkBounds physics marble b =
     (let x = xcoord (position marble); y = ycoord (position marble) in
      if jlt x (minX b) \<or> jgt x (maxX b) \<or> jlt y (minY b) \<or> jgt y (maxY b) then False
      else True)"

definition checkCollision :: "PhysicsEngine \<Rightarrow> Marble \<Rightarrow> star \<Rightarrow> bool" where
  "checkCollision physics marble s =
     (let dx = jsub (xcoord (position marble)) (star_x s);
          dy = jsub (ycoord (position marble)) (star_y s);
          distance = jsqrt (jadd (jmul dx dx) (jmul dy dy))
      in jlt distance (jadd (radius marble) (star_radius s)))"

text \<open>\<^verbatim>\<open>calculateDerivative(equation, x, dx = 0.01)\<close>; a throwing sample is caught.\<close>

definition calculateDerivative :: "PhysicsEngine \<Rightarrow> equation \<Rightarrow> jsnum \<Rightarrow> jsnum \<Rightarrow> jsnum" where
  "calculateDerivative physics eq x dx =
     (case evaluate eq (jsub x (jdiv dx (Num 2))) of
        None \<Rightarrow> Num 0
      | Some y1 \<Rightarrow>
          (case evaluate eq (jadd x (jdiv dx (Num 2))) of
             None \<Rightarrow> Num 0
           | Some y2 \<Rightarrow>
               if isNaN y1 \<or> isNaN y2 \<or> \<not> isFinite y1 \<or> \<not> isFinite y2 then Num 0
               else jdiv (jsub y2 y1) dx))"

definition calculateDerivativeX :: "PhysicsEngine \<Rightarrow> equation \<Rightarrow> jsnum \<Rightarrow> jsnum \<Rightarrow> jsnum" where
  "calculateDerivativeX physics eq y dy =
     (case evaluate eq (jsub y (jdiv dy (Num 2))) of
        None \<Rightarrow> Num 0
      | Some x1 \<Rightarrow>
          (case evaluate eq (jadd y (jdiv dy (Num 2))) of
             None \<Rightarrow> Num 0
           | Some x2 \<Rightarrow>
               if isNaN x1 \<or> isNaN x2 \<or> \<not> isFinite x1 \<or> \<not> isFinite x2 then Num 0
               else jdiv (jsub x2 x1) dy))"

text \<open>
  The loop of \<^verbatim>\<open>calculateImplicitVelocity\<close> over \<^verbatim>\<open>i = 1 .. points.length - 1\<close>:
  \<open>prev\<close> is \<^verbatim>\<open>points[i-1]\<close>, the head of the list is \<^verbatim>\<open>points[i]\<close>, the state
  is \<^verbatim>\<open>(bestDirection, minDistance)\<close>.
\<close>

definition implicitStep :: "jsnum \<Rightarrow> vec2 \<Rightarrow> vec2 \<Rightarrow> vec2 \<times> jsnum \<Rightarrow> vec2 \<times> jsnum" where
  "implicitStep x prev p st =
     (let dx = jsub (xcoord p) (xcoord prev);
          dy = jsub (ycoord p) (ycoord prev);
          distance = jabs (jsub (xcoord p) x)
      in if jlt distance (snd st) \<and> (jne dx (Num 0) \<or> jne dy (Num 0)) then
           (let magnitude = jsqrt (jadd (jmul dx dx) (jmul dy dy))
            in (\<lparr>xcoord = jdiv dx magnitude, ycoord = jdiv dy magnitude\<rparr>, distance))
         else st)"

fun implicitLoop :: "jsnum \<Rightarrow> vec2 \<Rightarrow> vec2 list \<Rightarrow> vec2 \<times> jsnum \<Rightarrow> vec2 \<times> jsnum" where
  "implicitLoop x prev [] st = st"
| "implicitLoop x prev (p # ps) st = implicitLoop x p ps (implicitStep x prev p st)"

definition calculateImplicitVelocity :: "PhysicsEngine \<Rightarrow> equation \<Rightarrow> jsnum \<Rightarrow> jsnum \<Rightarrow> vec2" where
  "calculateImplicitVelocity physics eq x speed =
     (let step = Num 0.1;
          points = getPoints eq (jsub x step) (jadd x step) (Num (- 10)) (Num 10) (Num 20)
      in if length points < 2 then \<lparr>xcoord = speed, ycoord = Num 0\<rparr>
         else
           (let bestDirection =
                  fst (implicitLoop x (hd points) (tl points)
                         (\<lparr>xcoord = Num 1, ycoord = Num 0\<rparr>, PosInf))
            in \<lparr>xcoord = jmul speed (xcoord bestDirection),
                ycoord = jmul speed (ycoord bestDirection)\<rparr>))"

text \<open>
  \<^verbatim>\<open>calculatePathVelocity(equation, x, speed = null)\<close>. The only call that can throw
  inside its \<^verbatim>\<open>try\<close> is the direct \<^verbatim>\<open>equation.evaluate(x)\<close> of the explicit-x
  case; the \<^verbatim>\<open>catch\<close> then returns the zero vector.
\<close>

definition calculatePathVelocity ::
  "PhysicsEngine \<Rightarrow> equation \<Rightarrow> jsnum \<Rightarrow> jsnum option \<Rightarrow> vec2" where
  "calculatePathVelocity physics eq x speed =
     (let actualSpeed =
            (case speed of
               None \<Rightarrow> pathFollowSpeed physics
             | Some s \<Rightarrow> if truthy s then s else pathFollowSpeed physics)
      in if eqtype eq = explicit_y \<or> eqtype eq = piecewise then
           (let derivative = calculateDerivative physics eq x (Num 0.01);
                magnitude = jsqrt (jadd (Num 1) (jmul derivative derivative))
            in \<lparr>xcoord = jdiv actualSpeed magnitude,
                ycoord = jdiv (jmul actualSpeed derivative) magnitude\<rparr>)
         else if eqtype eq = explicit_x then
           (case evaluate eq x of
              None \<Rightarrow> \<lparr>xcoord = Num 0, ycoord = Num 0\<rparr>
            | Some y \<Rightarrow>
                (let dxdy = calculateDerivativeX physics eq y (Num 0.01);
                     dydx = (if jne dxdy (Num 0) then jdiv (Num 1) dxdy else Num 0);
                     mag = jsqrt (jadd (Num 1) (jmul dydx dydx))
                 in \<lparr>xcoord = jdiv actualSpeed mag,
                     ycoord = jdiv (jmul actualSpeed dydx) mag\<rparr>))
         else if eqtype eq = implicit then calculateImplicitVelocity physics eq x actualSpeed
         else \<lparr>xcoord = actualSpeed, ycoord = Num 0\<rparr>)"

section \<open>The counter of a scan\<close>

text \<open>
  Both scans of the closest-point search are loops
  \<^verbatim>\<open>for (let x = startX; x <= endX; x += step)\<close> with \<^verbatim>\<open>step = 0.05\<close>. The counter
  is a double: every \<^verbatim>\<open>x += step\<close> adds the double nearest to 0.05 and rounds the sum,
  so the loop leaves the grid \<open>startX + 0.05 k\<close>. Between -10 and 10 each addition moves
  the counter by 0.05 up to \<^verbatim>\<open>2^-48\<close>, which bounds the loop.
\<close>

lemma overflowLimit_large: "1000000 < overflowLimit"
  by (simp add: overflowLimit_def)

lemma ofReal_small [simp]: "\<bar>r\<bar> \<le> 1000000 \<Longrightarrow> ofReal r = Num r"
  using overflowLimit_large by (auto simp: ofReal_def)

lemma roundEven_error: "\<bar>of_int (roundEven q) - q\<bar> \<le> 1 / 2"
  unfolding roundEven_def Let_def by (auto; linarith)

lemma ulp_pos: "0 < ulp r"
  by (simp add: ulp_def)

lemma ulp_le:
  assumes "r \<noteq> 0" and "\<bar>r\<bar> \<le> 16"
  shows "ulp r \<le> 1 / 2 ^ 48"
proof -
  have "log 2 \<bar>r\<bar> \<le> log 2 16"
    using assms by simp
  also have "log 2 16 = 4"
    using log_pow_cancel [of 2 4] by simp
  finally have "\<lfloor>log 2 \<bar>r\<bar>\<rfloor> \<le> 4"
    by (simp add: floor_le_iff)
  then have "max (- 1022) \<lfloor>log 2 \<bar>r\<bar>\<rfloor> \<le> 4"
    by simp
  then have "of_int (max (- 1022) \<lfloor>log 2 \<bar>r\<bar>\<rfloor>) - 52 \<le> (- 48 :: real)"
    by linarith
  then have "ulp r \<le> 2 powr (- 48)"
    unfolding ulp_def by (rule powr_mono) simp
  then show ?thesis
    by (simp add: powr_neg_numeral)
qed

lemma fl_error:
  assumes "\<bar>r\<bar> \<le> 16"
  shows "\<exists>m. fl r = Num m \<and> \<bar>m - r\<bar> \<le> 1 / 2 ^ 49"
proof (cases "r = 0")
  case True
  then show ?thesis
    by (simp add: fl_def)
next
  case False
  let ?u = "ulp r"
  let ?m = "of_int (roundEven (r / ?u)) * ?u"
  have u: "0 < ?u" "?u \<le> 1 / 2 ^ 48"
    using ulp_pos ulp_le [OF False assms] by simp_all
  have "?m - r = (of_int (roundEven (r / ?u)) - r / ?u) * ?u"
    using u(1) by (simp add: algebra_simps)
  then have "\<bar>?m - r\<bar> = \<bar>of_int (roundEven (r / ?u)) - r / ?u\<bar> * ?u"
    using u(1) by (simp add: abs_mult)
  also have "\<dots> \<le> (1 / 2) * ?u"
    using roundEven_error [of "r / ?u"] u(1) by (intro mult_right_mono) simp_all
  also have "\<dots> \<le> 1 / 2 ^ 49"
    using u(2) by simp
  finally have err: "\<bar>?m - r\<bar> \<le> 1 / 2 ^ 49" .
  have "(1 :: real) / 2 ^ 49 \<le> 1"
    by simp
  with err assms have "\<bar>?m\<bar> \<le> 1000000"
    by linarith
  then have "fl r = Num ?m"
    using False by (simp add: fl_def)
  with err show ?thesis
    by blast
qed

lemma step_rounded:
  assumes "- 10 \<le> x" and "x \<le> 10"
  shows "\<exists>x'. jaddRounded (Num x) (fl 0.05) = Num x' \<and> \<bar>x' - (x + 1 / 20)\<bar> \<le> 1 / 2 ^ 48"
proof -
  have lit: "(0.05 :: real) = 1 / 20"
    by simp
  have "\<bar>1 / 20 :: real\<bar> \<le> 16"
    by simp
  from fl_error [OF this] obtain s where s: "fl (1 / 20) = Num s" "\<bar>s - 1 / 20\<bar> \<le> 1 / 2 ^ 49"
    by blast
  have tiny: "(1 :: real) / 2 ^ 49 \<le> 1"
    by simp
  with s(2) assms have small: "\<bar>x + s\<bar> \<le> 16"
    by linarith
  from fl_error [OF this] obtain x' where x': "fl (x + s) = Num x'" "\<bar>x' - (x + s)\<bar> \<le> 1 / 2 ^ 49"
    by blast
  have "\<bar>x + s\<bar> \<le> 1000000"
    using small by linarith
  then have "jaddRounded (Num x) (fl 0.05) = Num x'"
    unfolding lit s(1) jaddRounded_def by (simp add: x'(1))
  moreover have "\<bar>x' - (x + 1 / 20)\<bar> \<le> 1 / 2 ^ 48"
  proof -
    have "(1 :: real) / 2 ^ 49 + 1 / 2 ^ 49 = 1 / 2 ^ 48"
      by simp
    with s(2) x'(2) show ?thesis
      by linarith
  qed
  ultimately show ?thesis
    by blast
qed

lemma step_progress:
  assumes "- 10 \<le> x" and "x \<le> 10" and "jaddRounded (Num x) (fl 0.05) = Num x'"
  shows "x + 1 / 25 \<le> x'" and "x' \<le> x + 3 / 50"
proof -
  from step_rounded [OF assms(1,2)] assms(3) have "\<bar>x' - (x + 1 / 20)\<bar> \<le> 1 / 2 ^ 48"
    by auto
  moreover have "(1 :: real) / 2 ^ 48 \<le> 1 / 100"
    by simp
  ultimately show "x + 1 / 25 \<le> x'" and "x' \<le> x + 3 / 50"
    by linarith+
qed

text \<open>
  The values that the counter takes, in order. The loop is entered with
  \<open>-10 \<le> startX\<close> and \<open>endX \<le> 10\<close>, both bounds being clipped just before it by
  \<^verbatim>\<open>Math.max(-10, _)\<close> and \<^verbatim>\<open>Math.min(10, _)\<close>. The test is repeated in the
  recursion, where it then holds at every round (lemma \<open>scanValues_window\<close>), because
  far outside these bounds a counter stops moving and the loop does not return. A sum
  that is not finite would fail the test \<^verbatim>\<open>x <= endX\<close>.
\<close>

function scanValues :: "real \<Rightarrow> real \<Rightarrow> real list" where
  "scanValues endX x =
     (if x \<le> endX \<and> - 10 \<le> x \<and> endX \<le> 10 then
        x # (case jaddRounded (Num x) (fl 0.05) of Num x' \<Rightarrow> scanValues endX x' | _ \<Rightarrow> [])
      else [])"
  by pat_completeness auto
termination
proof (relation "measure (\<lambda>(endX, x). nat (\<lfloor>(endX - x) * 25\<rfloor> + 1))")
  fix endX x x' :: real
  assume guard: "x \<le> endX \<and> - 10 \<le> x \<and> endX \<le> 10"
    and nxt: "jaddRounded (Num x) (fl 0.05) = Num x'"
  have "x + 1 / 25 \<le> x'"
    using guard nxt by (intro step_progress(1)) simp_all
  then have "(endX - x') * 25 \<le> (endX - x) * 25 - 1"
    by (simp add: algebra_simps)
  then have "\<lfloor>(endX - x') * 25\<rfloor> \<le> \<lfloor>(endX - x) * 25 - 1\<rfloor>"
    by (rule floor_mono)
  moreover have "0 \<le> \<lfloor>(endX - x) * 25\<rfloor>"
    using guard by simp
  ultimately have "nat (\<lfloor>(endX - x') * 25\<rfloor> + 1) < nat (\<lfloor>(endX - x) * 25\<rfloor> + 1)"
    unfolding floor_diff_one by linarith
  then show "((endX, x'), (endX, x)) \<in> measure (\<lambda>(endX, x). nat (\<lfloor>(endX - x) * 25\<rfloor> + 1))"
    by (simp only: in_measure prod.case)
qed simp

declare scanValues.simps [simp del]

text \<open>
  The loop from \<open>startX\<close> to \<open>endX\<close>. The test \<^verbatim>\<open>x <= endX\<close> fails at once when a
  bound is NaN, when \<open>startX\<close> is \<^verbatim>\<open>Infinity\<close> or \<open>endX\<close> is \<^verbatim>\<open>-Infinity\<close>;
  \<^verbatim>\<open>Math.max(-10, _)\<close> is never \<^verbatim>\<open>-Infinity\<close> and \<^verbatim>\<open>Math.min(10, _)\<close> never
  \<^verbatim>\<open>Infinity\<close> (lemmas \<open>jmax_not_NegInf\<close> and \<open>jmin_not_PosInf\<close>), so the body runs
  only between finite bounds.
\<close>

definition scannedXs :: "jsnum \<Rightarrow> jsnum \<Rightarrow> real list" where
  "scannedXs startX endX =
     (case startX of
        Num a \<Rightarrow> (case endX of Num b \<Rightarrow> scanValues b a | _ \<Rightarrow> [])
      | _ \<Rightarrow> [])"

section \<open>Closest points\<close>

text \<open>
  The body of the scan of \<^verbatim>\<open>findClosestPointExplicitY\<close> at one \<open>x\<close>; the state is
  \<^verbatim>\<open>(closestX, minDistance)\<close>. A throwing or non-finite sample leaves it unchanged.
\<close>

definition stepExplicitY ::
  "equation \<Rightarrow> jsnum \<Rightarrow> jsnum \<Rightarrow> real \<Rightarrow> jsnum \<times> jsnum \<Rightarrow> jsnum \<times> jsnum" where
  "stepExplicitY eq marbleX marbleY x st =
     (case evaluate eq (Num x) of
        None \<Rightarrow> st
      | Some y \<Rightarrow>
          if \<not> isNaN y \<and> isFinite y then
            (let distance =
                   jsqrt (jadd (jsquare (jsub (Num x) marbleX)) (jsquare (jsub y marbleY)))
             in if jlt distance (snd st) then (Num x, distance) else st)
          else st)"

text \<open>
  \<^verbatim>\<open>for (let x = startX; x <= endX; x += step)\<close> with the body above, from
  \<^verbatim>\<open>startX = Math.max(-10, marbleX - searchRadius)\<close> to
  \<^verbatim>\<open>endX = Math.min(10, marbleX + searchRadius)\<close>.
\<close>

definition forExplicitY ::
  "equation \<Rightarrow> jsnum \<Rightarrow> jsnum \<Rightarrow> jsnum \<Rightarrow> jsnum \<Rightarrow> jsnum \<times> jsnum \<Rightarrow> jsnum \<times> jsnum" where
  "forExplicitY eq marbleX marbleY startX endX st =
     fold (stepExplicitY eq marbleX marbleY) (scannedXs startX endX) st"

definition findClosestPointExplicitY ::
  "PhysicsEngine \<Rightarrow> Marble \<Rightarrow> equation \<Rightarrow> jsnum \<Rightarrow> closest option" where
  "findClosestPointExplicitY physics marble eq searchRadius =
     (let marbleX = xcoord (position marble);
          marbleY = ycoord (position marble);
          startX = jmax (Num (- 10)) (jsubRounded marbleX searchRadius);
          endX = jmin (Num 10) (jaddRounded marbleX searchRadius);
          st = forExplicitY eq marbleX marbleY startX endX (marbleX, PosInf)
      in case evaluate eq (fst st) of
           None \<Rightarrow> None
         | Some closestY \<Rightarrow> Some \<lparr>cp_x = fst st, cp_y = closestY, cp_distance = snd st\<rparr>)"

text \<open>The same scan over \<open>y\<close> for \<^verbatim>\<open>x = f(y)\<close>; the state is \<^verbatim>\<open>(closestY, minDistance)\<close>.\<close>

definition stepExplicitX ::
  "equation \<Rightarrow> jsnum \<Rightarrow> jsnum \<Rightarrow> real \<Rightarrow> jsnum \<times> jsnum \<Rightarrow> jsnum \<times> jsnum" where
  "stepExplicitX eq marbleX marbleY y st =
     (case evaluate eq (Num y) of
        None \<Rightarrow> st
      | Some x \<Rightarrow>
          if \<not> isNaN x \<and> isFinite x then
            (let distance =
                   jsqrt (jadd (jsquare (jsub x marbleX)) (jsquare (jsub (Num y) marbleY)))
             in if jlt distance (snd st) then (Num y, distance) else st)
          else st)"

definition forExplicitX ::
  "equation \<Rightarrow> jsnum \<Rightarrow> jsnum \<Rightarrow> jsnum \<Rightarrow> jsnum \<Rightarrow> jsnum \<times> jsnum \<Rightarrow> jsnum \<times> jsnum" where
  "forExplicitX eq marbleX marbleY startY endY st =
     fold (stepExplicitX eq marbleX marbleY) (scannedXs startY endY) st"

definition findClosestPointExplicitX ::
  "PhysicsEngine \<Rightarrow> Marble \<Rightarrow> equation \<Rightarrow> jsnum \<Rightarrow> closest option" where
  "findClosestPointExplicitX physics marble eq searchRadius =
     (let marbleX = xcoord (position marble);
          marbleY = ycoord (position marble);
          startY = jmax (Num (- 10)) (jsubRounded marbleY searchRadius);
          endY = jmin (Num 10) (jaddRounded marbleY searchRadius);
          st = forExplicitX eq marbleX marbleY startY endY (marbleY, PosInf)
      in case evaluate eq (fst st) of
           None \<Rightarrow> None
         | Some closestX \<Rightarrow> Some \<lparr>cp_x = closestX, cp_y = fst st, cp_distance = snd st\<rparr>)"

text \<open>\<^verbatim>\<open>findClosestPointImplicit\<close>: the first point of least distance among the samples.\<close>

definition pointDistance :: "jsnum \<Rightarrow> jsnum \<Rightarrow> vec2 \<Rightarrow> jsnum" where
  "pointDistance marbleX marbleY p =
     jsqrt (jadd (jsquare (jsub (xcoord p) marbleX)) (jsquare (jsub (ycoord p) marbleY)))"

definition stepImplicit :: "jsnum \<Rightarrow> jsnum \<Rightarrow> vec2 \<Rightarrow> vec2 \<times> jsnum \<Rightarrow> vec2 \<times> jsnum" where
  "stepImplicit marbleX marbleY p st =
     (let distance = pointDistance marbleX marbleY p
      in if jlt distance (snd st) then (p, distance) else st)"

definition findClosestPointImplicit ::
  "PhysicsEngine \<Rightarrow> Marble \<Rightarrow> equation \<Rightarrow> jsnum \<Rightarrow> closest option" where
  "findClosestPointImplicit physics marble eq searchRadius =
     (let marbleX = xcoord (position marble);
          marbleY = ycoord (position marble);
          points = getPoints eq (jsub marbleX searchRadius) (jadd marbleX searchRadius)
                     (jsub marbleY searchRadius) (jadd marbleY searchRadius) (Num 50)
      in case points of
           [] \<Rightarrow> None
         | p0 # ps \<Rightarrow>
             (let st = fold (stepImplicit marbleX marbleY) ps
                         (p0, pointDistance marbleX marbleY p0)
              in Some \<lparr>cp_x = xcoord (fst st), cp_y = ycoord (fst st), cp_distance = snd st\<rparr>))"

text \<open>\<^verbatim>\<open>findClosestPointOnPath(marble, equation, searchRadius = 2.0)\<close>.\<close>

definition findClosestPointOnPath ::
  "PhysicsEngine \<Rightarrow> Marble \<Rightarrow> equation \<Rightarrow> jsnum \<Rightarrow> closest option" where
  "findClosestPointOnPath physics marble eq searchRadius =
     (case eqtype eq of
        explicit_y \<Rightarrow> findClosestPointExplicitY physics marble eq searchRadius
      | piecewise \<Rightarrow> findClosestPointExplicitY physics marble eq searchRadius
      | explicit_x \<Rightarrow> findClosestPointExplicitX physics marble eq searchRadius
      | implicit \<Rightarrow> findClosestPointImplicit physics marble eq searchRadius
      | other_type \<Rightarrow> None)"

section \<open>Choosing among candidate paths\<close>

text \<open>
  \<^verbatim>\<open>samplePathPoints(equation, startX, distance, numSamples)\<close>; the counter \<open>i\<close> runs
  over \<^verbatim>\<open>0 .. numSamples\<close>.
\<close>

definition samplePathPoints :: "PhysicsEngine \<Rightarrow> equation \<Rightarrow> jsnum \<Rightarrow> jsnum \<Rightarrow> nat \<Rightarrow> vec2 list" where
  "samplePathPoints physics eq startX distance numSamples =
     (if eqtype eq = explicit_y \<or> eqtype eq = piecewise then
        (let step = jdiv distance (Num (real numSamples))
         in concat (map (\<lambda>i.
              let x = jadd startX (jmul (Num (real i)) step)
              in case evaluate eq x of
                   None \<Rightarrow> []
                 | Some y \<Rightarrow>
                     if \<not> isNaN y \<and> isFinite y then [\<lparr>xcoord = x, ycoord = y\<rparr>] else [])
              [0 ..< Suc numSamples]))
      else if eqtype eq = explicit_x then
        (let yStep = jdiv distance (Num (real numSamples))
         in concat (map (\<lambda>i.
              let y = jadd (Num (- 10)) (jmul (Num (real i)) yStep)
              in case evaluate eq y of
                   None \<Rightarrow> []
                 | Some x \<Rightarrow>
                     if \<not> isNaN x \<and> isFinite x \<and> jge x startX \<and> jle x (jadd startX distance)
                     then [\<lparr>xcoord = x, ycoord = y\<rparr>] else [])
              [0 ..< Suc numSamples]))
      else if eqtype eq = implicit then
        getPoints eq startX (jadd startX distance) (Num (- 10)) (Num 10) (Num (real numSamples))
      else [])"

text \<open>
  One round of \<^verbatim>\<open>uncollectedStars.forEach\<close> in \<^verbatim>\<open>calculatePathScore\<close>, on the running
  \<open>score\<close>: the closest approach of the samples to the star, then the direction bonus.
\<close>

definition scoreStar ::
  "PhysicsEngine \<Rightarrow> Marble \<Rightarrow> pathData \<Rightarrow> vec2 list \<Rightarrow> star \<Rightarrow> jsnum \<Rightarrow> jsnum" where
  "scoreStar physics marble pd samplePoints s score =
     (let minDistanceToStar =
            fold (\<lambda>point m.
                    jmin m (jsqrt (jadd (jsquare (jsub (xcoord point) (star_x s)))
                                        (jsquare (jsub (ycoord point) (star_y s))))))
              samplePoints PosInf;
          score1 = (if jlt minDistanceToStar (Num 2)
                    then jadd score (jmul (jsub (Num 2) minDistanceToStar) (Num 100))
                    else score);
          dirX = jsub (star_x s) (xcoord (position marble));
          dirY = jsub (star_y s) (ycoord (position marble));
          pathDirection = calculatePathVelocity physics (equation pd) (cp_x (closestPoint pd)) None;
          dotProduct = jadd (jmul dirX (xcoord pathDirection)) (jmul dirY (ycoord pathDirection))
      in if jgt dotProduct (Num 0) then jadd score1 (jmul dotProduct (Num 10)) else score1)"

definition calculatePathScore :: "PhysicsEngine \<Rightarrow> Marble \<Rightarrow> pathData \<Rightarrow> star list \<Rightarrow> jsnum" where
  "calculatePathScore physics marble pd strs =
     (let uncollectedStars = filter (\<lambda>s. \<not> collected s) strs
      in if length uncollectedStars = 0 then Num 0
         else
           (let samplePoints =
                  samplePathPoints physics (equation pd) (xcoord (position marble)) (Num 5) 20
            in fold (scoreStar physics marble pd samplePoints) uncollectedStars (Num 0)))"

text \<open>
  \<^verbatim>\<open>findBestPathTowardStars\<close>; the state of its \<^verbatim>\<open>forEach\<close> is
  \<^verbatim>\<open>(bestPath, bestScore)\<close>.
\<close>

definition bestStep ::
  "PhysicsEngine \<Rightarrow> Marble \<Rightarrow> star list \<Rightarrow> pathData \<Rightarrow> pathData option \<times> jsnum
     \<Rightarrow> pathData option \<times> jsnum" where
  "bestStep physics marble strs pd st =
     (let score = calculatePathScore physics marble pd strs
      in if jgt score (snd st) then (Some pd, score) else st)"

definition findBestPathTowardStars ::
  "PhysicsEngine \<Rightarrow> Marble \<Rightarrow> pathData list \<Rightarrow> star list \<Rightarrow> pathData option" where
  "findBestPathTowardStars physics marble candidatePaths strs =
     (if length candidatePaths \<le> 1 then
        (case candidatePaths of [] \<Rightarrow> None | pd # _ \<Rightarrow> Some pd)
      else fst (fold (bestStep physics marble strs) candidatePaths (None, NegInf)))"

section \<open>Marble\<close>

definition Marble_new :: "jsnum \<Rightarrow> jsnum \<Rightarrow> string \<Rightarrow> Marble" where
  "Marble_new x y c =
     \<lparr>position = \<lparr>xcoord = x, ycoord = y\<rparr>,
      velocity = \<lparr>xcoord = Num 0.05, ycoord = Num 0\<rparr>,
      radius = Num 0.15, color = c, onPath = False, currentEquation = None,
      trail = [], maxTrailLength = 25, pathThreshold = Num 0.8, timeOffPath = 0,
      stars = None\<rparr>"

text \<open>The first statements of \<^verbatim>\<open>update\<close>: push the position, drop the oldest entry.\<close>

definition pushTrail :: "Marble \<Rightarrow> Marble" where
  "pushTrail m =
     (let t = trail m @ [\<lparr>xcoord = xcoord (position m), ycoord = ycoord (position m)\<rparr>]
      in m\<lparr>trail := (if length t > maxTrailLength m then tl t else t)\<rparr>)"

text \<open>The loop over \<^verbatim>\<open>equations\<close> that collects \<^verbatim>\<open>candidatePaths\<close>.\<close>

definition candidatePathsOf :: "PhysicsEngine \<Rightarrow> Marble \<Rightarrow> equation list \<Rightarrow> pathData list" where
  "candidatePathsOf physics m equations =
     concat (map (\<lambda>eq.
       case findClosestPointOnPath physics m eq (Num 2) of
         None \<Rightarrow> []
       | Some cp \<Rightarrow>
           if jlt (cp_distance cp) (pathThreshold m)
           then [\<lparr>equation = eq, closestPoint = cp, pd_distance = cp_distance cp\<rparr>]
           else []) equations)"

definition selectBestPath :: "PhysicsEngine \<Rightarrow> Marble \<Rightarrow> equation list \<Rightarrow> pathData option" where
  "selectBestPath physics m equations =
     (let candidatePaths = candidatePathsOf physics m equations
      in if length candidatePaths > 0 then
           findBestPathTowardStars physics m candidatePaths
             (case stars m of None \<Rightarrow> [] | Some strs \<Rightarrow> strs)
         else None)"

text \<open>The branch of \<^verbatim>\<open>update\<close> taken with a selected path.\<close>

definition followPath :: "PhysicsEngine \<Rightarrow> bool \<Rightarrow> pathData \<Rightarrow> Marble \<Rightarrow> Marble" where
  "followPath physics wasOnPath bestPathData m =
     (let bestPoint = closestPoint bestPathData;
          snapStrength = pathSnapStrength physics;
          px = jadd (xcoord (position m))
                 (jmul (jsub (cp_x bestPoint) (xcoord (position m))) snapStrength);
          py = jadd (ycoord (position m))
                 (jmul (jsub (cp_y bestPoint) (ycoord (position m))) snapStrength);
          pathVel = calculatePathVelocity physics (equation bestPathData) px None;
          blendFactor = (if wasOnPath then Num 0.8 else Num 0.5);
          vx = jadd (jmul (xcoord (velocity m)) (jsub (Num 1) blendFactor))
                 (jmul (xcoord pathVel) blendFactor);
          vy = jadd (jmul (ycoord (velocity m)) (jsub (Num 1) blendFactor))
                 (jmul (ycoord pathVel) blendFactor)
      in m\<lparr>currentEquation := Some (equation bestPathData),
           timeOffPath := 0,
           position := \<lparr>xcoord = px, ycoord = py\<rparr>,
           velocity := \<lparr>xcoord = vx, ycoord = jadd vy (jmul (gravity physics) (Num 0.3))\<rparr>\<rparr>)"

text \<open>The branch taken without a path.\<close>

definition freeFall :: "PhysicsEngine \<Rightarrow> Marble \<Rightarrow> Marble" where
  "freeFall physics m =
     (let m1 = applyGravity physics (m\<lparr>currentEquation := None, timeOffPath := timeOffPath m + 1\<rparr>)
      in m1\<lparr>velocity :=
              \<lparr>xcoord = jmul (xcoord (velocity m1)) (Num 0.995),
               ycoord = jmul (ycoord (velocity m1)) (Num 0.995)\<rparr>\<rparr>)"

text \<open>\<^verbatim>\<open>update\<close> up to and including \<^verbatim>\<open>physics.updatePosition(this)\<close>.\<close>

definition moveMarble :: "PhysicsEngine \<Rightarrow> equation list \<Rightarrow> Marble \<Rightarrow> Marble" where
  "moveMarble physics equations m =
     (let m1 = pushTrail m;
          bestPathData = selectBestPath physics m1 equations;
          wasOnPath = onPath m1;
          m2 = m1\<lparr>onPath := (bestPathData \<noteq> None)\<rparr>;
          m3 = (case bestPathData of
                  Some pd \<Rightarrow> followPath physics wasOnPath pd m2
                | None \<Rightarrow> freeFall physics m2)
      in updatePosition physics (applyFriction physics m3) (Num 1))"

text \<open>The last statement of \<^verbatim>\<open>update\<close>: the nudge out of a standstill.\<close>

definition antiStall :: "Marble \<Rightarrow> Marble" where
  "antiStall m =
     (if jlt (jabs (xcoord (velocity m))) (Num 0.001) \<and> jlt (jabs (ycoord (velocity m))) (Num 0.001)
      then m\<lparr>velocity := (velocity m)\<lparr>xcoord := jadd (xcoord (velocity m)) (Num 0.01)\<rparr>\<rparr>
      else m)"

definition Marble_update :: "PhysicsEngine \<Rightarrow> equation list \<Rightarrow> Marble \<Rightarrow> Marble" where
  "Marble_update physics equations m = antiStall (moveMarble physics equations m)"

section \<open>First minimum of a scan\<close>

text \<open>
  The loops of the physics that keep the best element seen so far share one shape: the
  state is a value with its key, and an element replaces it when its key is strictly
  below the key of the state and the element passes a test. \<open>firstMin\<close> says that the
  element at index \<open>k\<close> is the first one of least key among the elements that pass
  the test with a key below the initial one.
\<close>

definition minStep ::
  "('e \<Rightarrow> bool) \<Rightarrow> ('e \<Rightarrow> jsnum) \<Rightarrow> ('e \<Rightarrow> 'v) \<Rightarrow> 'e \<Rightarrow> 'v \<times> jsnum \<Rightarrow> 'v \<times> jsnum" where
  "minStep ok key val e st = (if jlt (key e) (snd st) \<and> ok e then (val e, key e) else st)"

definition eligible :: "('e \<Rightarrow> bool) \<Rightarrow> ('e \<Rightarrow> jsnum) \<Rightarrow> jsnum \<Rightarrow> 'e \<Rightarrow> bool" where
  "eligible ok key d0 e = (ok e \<and> jlt (key e) d0)"

definition firstMin :: "('e \<Rightarrow> bool) \<Rightarrow> ('e \<Rightarrow> jsnum) \<Rightarrow> jsnum \<Rightarrow> 'e list \<Rightarrow> nat \<Rightarrow> bool" where
  "firstMin ok key d0 es k =
     (k < length es \<and> eligible ok key d0 (es ! k)
      \<and> (\<forall>j < length es. eligible ok key d0 (es ! j) \<longrightarrow> \<not> jlt (key (es ! j)) (key (es ! k)))
      \<and> (\<forall>j < k. eligible ok key d0 (es ! j) \<longrightarrow> jlt (key (es ! k)) (key (es ! j))))"

section \<open>Notions of the specification\<close>

text \<open>The position lies in the rectangle, the boundary included.\<close>

definition insideBounds :: "Marble \<Rightarrow> bounds \<Rightarrow> bool" where
  "insideBounds marble b =
     (jle (minX b) (xcoord (position marble)) \<and> jle (xcoord (position marble)) (maxX b) \<and>
      jle (minY b) (ycoord (position marble)) \<and> jle (ycoord (position marble)) (maxY b))"

text \<open>A half-step sample fails: the evaluation throws or its value is not finite.\<close>

fun sampleFails :: "jsnum option \<Rightarrow> bool" where
  "sampleFails None = True"
| "sampleFails (Some v) = (\<not> isFinite v)"

text \<open>Both velocity components are below 0.001 in magnitude.\<close>

definition stalled :: "Marble \<Rightarrow> bool" where
  "stalled m =
     (jlt (jabs (xcoord (velocity m))) (Num 0.001) \<and> jlt (jabs (ycoord (velocity m))) (Num 0.001))"

text \<open>
  After one update \<open>|velocity.x| \<ge> 0.01\<close>, or \<open>velocity.x\<close> is 0.01 above its value
  before the last statement of \<^verbatim>\<open>update\<close>.
\<close>

definition nudgedOrFast :: "PhysicsEngine \<Rightarrow> equation list \<Rightarrow> Marble \<Rightarrow> bool" where
  "nudgedOrFast physics equations m =
     (jge (jabs (xcoord (velocity (Marble_update physics equations m)))) (Num 0.01)
      \<or> xcoord (velocity (Marble_update physics equations m))
          = jadd (xcoord (velocity (moveMarble physics equations m))) (Num 0.01))"

text \<open>A vector with finite components.\<close>

definition finiteVec :: "vec2 \<Rightarrow> bool" where
  "finiteVec v = (isFinite (xcoord v) \<and> isFinite (ycoord v))"

text \<open>
  A pair of consecutive sampled points: the distance in \<open>x\<close> of its second point to the
  query, whether its two points differ, and its normalised difference.
\<close>

definition pairDistance :: "jsnum \<Rightarrow> vec2 \<times> vec2 \<Rightarrow> jsnum" where
  "pairDistance x pr = jabs (jsub (xcoord (snd pr)) x)"

definition pairMoves :: "vec2 \<times> vec2 \<Rightarrow> bool" where
  "pairMoves pr =
     (jne (jsub (xcoord (snd pr)) (xcoord (fst pr))) (Num 0)
      \<or> jne (jsub (ycoord (snd pr)) (ycoord (fst pr))) (Num 0))"

definition pairDirection :: "vec2 \<times> vec2 \<Rightarrow> vec2" where
  "pairDirection pr =
     (let dx = jsub (xcoord (snd pr)) (xcoord (fst pr));
          dy = jsub (ycoord (snd pr)) (ycoord (fst pr));
          magnitude = jsqrt (jadd (jmul dx dx) (jmul dy dy))
      in \<lparr>xcoord = jdiv dx magnitude, ycoord = jdiv dy magnitude\<rparr>)"

text \<open>
  The implicit tangent estimate in the words of the specification: among the consecutive
  pairs, the one whose first point is closest in \<open>x\<close> to the query gives the direction.
\<close>

definition firstPointDistance :: "jsnum \<Rightarrow> vec2 \<times> vec2 \<Rightarrow> jsnum" where
  "firstPointDistance x pr = jabs (jsub (xcoord (fst pr)) x)"

definition specImplicitTangent :: "equation \<Rightarrow> jsnum \<Rightarrow> jsnum \<Rightarrow> vec2" where
  "specImplicitTangent eq x speed =
     (let ps = getPoints eq (jsub x (Num 0.1)) (jadd x (Num 0.1)) (Num (- 10)) (Num 10) (Num 20)
      in if length ps < 2 then \<lparr>xcoord = speed, ycoord = Num 0\<rparr>
         else
           (let d = fst (fold (minStep (\<lambda>pr. True) (firstPointDistance x) pairDirection)
                           (zip ps (tl ps)) (\<lparr>xcoord = Num 1, ycoord = Num 0\<rparr>, PosInf))
            in \<lparr>xcoord = jmul speed (xcoord d), ycoord = jmul speed (ycoord d)\<rparr>))"

text \<open>
  A scanned \<open>x\<close> is kept when the curve has a finite value there; its distance is the
  Euclidean distance from \<open>(x, eq(x))\<close> to the marble.
\<close>

definition sampleOK :: "equation \<Rightarrow> real \<Rightarrow> bool" where
  "sampleOK eq x = (case evaluate eq (Num x) of Some (Num y) \<Rightarrow> True | _ \<Rightarrow> False)"

definition sampleDistance :: "equation \<Rightarrow> jsnum \<Rightarrow> jsnum \<Rightarrow> real \<Rightarrow> jsnum" where
  "sampleDistance eq marbleX marbleY x =
     (case evaluate eq (Num x) of
        Some y \<Rightarrow> jsqrt (jadd (jsquare (jsub (Num x) marbleX)) (jsquare (jsub y marbleY)))
      | None \<Rightarrow> NaN)"

text \<open>
  The lookahead samples in the words of the specification: points of the path over the
  window of 5 units that starts at the marble's \<open>x\<close>. For \<open>y = f(x)\<close> they are taken at
  the 21 abscissas \<open>mx, mx + 0.25, ..., mx + 5\<close>, a quarter of a unit apart, wherever the
  curve has a finite value. An implicit curve is asked for its points over the window, at
  resolution 20. For \<open>x = f(y)\<close> the specification does not say at which ordinates the
  path is sampled, and the reference leaves these samples open: None.
\<close>

definition lookaheadStops :: "jsnum \<Rightarrow> jsnum list" where
  "lookaheadStops start = map (\<lambda>i. jadd start (jmul (Num (real i)) (Num 0.25))) [0 ..< 21]"

definition finiteAt :: "equation \<Rightarrow> jsnum \<Rightarrow> jsnum option" where
  "finiteAt eq v = (case evaluate eq v of Some (Num r) \<Rightarrow> Some (Num r) | _ \<Rightarrow> None)"

definition lookaheadSamples :: "equation \<Rightarrow> jsnum \<Rightarrow> vec2 list option" where
  "lookaheadSamples eq mx =
     (case eqtype eq of
        explicit_x \<Rightarrow> None
      | implicit \<Rightarrow> Some (getPoints eq mx (jadd mx (Num 5)) (Num (- 10)) (Num 10) (Num 20))
      | other_type \<Rightarrow> Some []
      | _ \<Rightarrow>
          Some (List.map_filter (\<lambda>x. map_option (\<lambda>y. \<lparr>xcoord = x, ycoord = y\<rparr>) (finiteAt eq x))
                  (lookaheadStops mx)))"

text \<open>
  The path score in the words of the specification. For each uncollected star: the
  minimum distance \<open>d\<close> from any lookahead sample to the star gives \<open>(2 - d) * 100\<close>
  when \<open>d < 2\<close>; the dot product of the vector from the marble to the star with the
  tangent at the candidate's closest point gives 10 times itself when it is positive;
  the score is the sum over the stars, and 0 when no star is left. \<open>tangentLength\<close> is
  the length of the tangent vector: 1 for the unit tangent of the specification. The
  score is None where the samples are left open.
\<close>

definition starDistance :: "star \<Rightarrow> vec2 \<Rightarrow> jsnum" where
  "starDistance s p =
     jsqrt (jadd (jsquare (jsub (xcoord p) (star_x s))) (jsquare (jsub (ycoord p) (star_y s))))"

definition closestApproach :: "vec2 list \<Rightarrow> star \<Rightarrow> jsnum" where
  "closestApproach samples s = foldr (\<lambda>p m. jmin (starDistance s p) m) samples PosInf"

definition proximityBonus :: "vec2 list \<Rightarrow> star \<Rightarrow> jsnum" where
  "proximityBonus samples s =
     (let d = closestApproach samples s
      in if jlt d (Num 2) then jmul (jsub (Num 2) d) (Num 100) else Num 0)"

definition headingBonus :: "Marble \<Rightarrow> vec2 \<Rightarrow> star \<Rightarrow> jsnum" where
  "headingBonus marble tangent s =
     (let dot = jadd (jmul (jsub (star_x s) (xcoord (position marble))) (xcoord tangent))
                     (jmul (jsub (star_y s) (ycoord (position marble))) (ycoord tangent))
      in if jlt (Num 0) dot then jmul (Num 10) dot else Num 0)"

definition referenceScore ::
  "PhysicsEngine \<Rightarrow> jsnum \<Rightarrow> Marble \<Rightarrow> pathData \<Rightarrow> star list \<Rightarrow> jsnum option" where
  "referenceScore physics tangentLength marble pd strs =
     (let uncollected = filter (\<lambda>s. \<not> collected s) strs
      in if uncollected = [] then Some (Num 0)
         else
           (case lookaheadSamples (equation pd) (xcoord (position marble)) of
              None \<Rightarrow> None
            | Some samples \<Rightarrow>
                (let tangent = calculatePathVelocity physics (equation pd) (cp_x (closestPoint pd))
                                 (Some tangentLength)
                 in Some (foldr (\<lambda>s total. jadd (jadd (proximityBonus samples s)
                                                       (headingBonus marble tangent s)) total)
                            uncollected (Num 0)))))"

text \<open>
  A score: a number from 0 on inside the range of the doubles, or \<^verbatim>\<open>Infinity\<close>.
\<close>

definition scoreValue :: "jsnum \<Rightarrow> bool" where
  "scoreValue v = (v = PosInf \<or> (\<exists>r. v = Num r \<and> 0 \<le> r \<and> r < overflowLimit))"

section \<open>Example inputs\<close>

text \<open>The curves \<open>y = 1\<close> and \<open>y = x\<^sup>2\<close>.\<close>

definition constOne :: equation where
  "constOne = \<lparr>eqtype = explicit_y, evaluate = (\<lambda>v. Some (Num 1)), getPoints = (\<lambda>a b c d e. [])\<rparr>"

definition parabola :: equation where
  "parabola = \<lparr>eqtype = explicit_y, evaluate = (\<lambda>v. Some (jmul v v)), getPoints = (\<lambda>a b c d e. [])\<rparr>"

text \<open>A marble at the origin with velocity \<open>(0.0005, -0.0003)\<close>.\<close>

definition slowMarble :: Marble where
  "slowMarble = (Marble_new (Num 0) (Num 0) ''blue'')
     \<lparr>velocity := \<lparr>xcoord = Num 0.0005, ycoord = Num (- 0.0003)\<rparr>\<rparr>"

text \<open>
  An implicit curve sampled as the two points \<open>(0, 0)\<close> and \<open>(1, 0)\<close>; a marble at rest
  at the origin.
\<close>

definition segment :: equation where
  "segment = \<lparr>eqtype = implicit, evaluate = (\<lambda>v. Some NaN),
     getPoints = (\<lambda>a b c d n. [\<lparr>xcoord = Num 0, ycoord = Num 0\<rparr>, \<lparr>xcoord = Num 1, ycoord = Num 0\<rparr>])\<rparr>"

definition restingMarble :: Marble where
  "restingMarble = (Marble_new (Num 0) (Num 0) ''blue'')
     \<lparr>velocity := \<lparr>xcoord = Num 0, ycoord = Num 0\<rparr>\<rparr>"

text \<open>An implicit curve sampled as \<open>(0, 0)\<close>, \<open>(1, 0)\<close>, \<open>(0, 0)\<close>.\<close>

definition zigzag :: equation where
  "zigzag = \<lparr>eqtype = implicit, evaluate = (\<lambda>v. Some NaN),
     getPoints = (\<lambda>a b c d n. [\<lparr>xcoord = Num 0, ycoord = Num 0\<rparr>, \<lparr>xcoord = Num 1, ycoord = Num 0\<rparr>,
                                 \<lparr>xcoord = Num 0, ycoord = Num 0\<rparr>])\<rparr>"

text \<open>An explicit curve that is undefined everywhere: every evaluation gives NaN.\<close>

definition undefinedCurve :: equation where
  "undefinedCurve = \<lparr>eqtype = explicit_y, evaluate = (\<lambda>v. Some NaN), getPoints = (\<lambda>a b c d e. [])\<rparr>"

text \<open>Two candidates for a marble at the origin, the first on the curve \<open>segment\<close>.\<close>

definition twoPaths :: "pathData list" where
  "twoPaths =
     [\<lparr>equation = segment, closestPoint = \<lparr>cp_x = Num 0, cp_y = Num 0, cp_distance = Num 0\<rparr>,
       pd_distance = Num 0\<rparr>,
      \<lparr>equation = constOne, closestPoint = \<lparr>cp_x = Num 0, cp_y = Num 1, cp_distance = Num 1\<rparr>,
       pd_distance = Num 1\<rparr>]"

text \<open>A marble whose trail is full.\<close>

definition fullTrailMarble :: Marble where
  "fullTrailMarble = (Marble_new (Num 0) (Num 0) ''blue'')
     \<lparr>trail := replicate 25 \<lparr>xcoord = Num 0, ycoord = Num 0\<rparr>\<rparr>"

text \<open>
  A curve \<open>y = f(x)\<close> with a jump: 0 up to \<open>x = -9.9975\<close> and \<open>10\<^sup>3\<^sup>0\<^sup>7\<close> beyond, both
  finite. A marble at rest on it at \<open>(-10, 0)\<close>.
\<close>

definition cliff :: equation where
  "cliff = \<lparr>eqtype = explicit_y,
     evaluate = (\<lambda>v. case v of Num r \<Rightarrow> Some (Num (if r \<le> - 9.9975 then 0 else 10 ^ 307))
                          | _ \<Rightarrow> Some NaN),
     getPoints = (\<lambda>a b c d e. [])\<rparr>"

definition edgeMarble :: Marble where
  "edgeMarble = (Marble_new (Num (- 10)) (Num 0) ''blue'')
     \<lparr>velocity := \<lparr>xcoord = Num 0, ycoord = Num 0\<rparr>\<rparr>"

text \<open>
  A marble at \<open>(10, 1)\<close>, on the curve \<open>y = 1\<close> at the right edge of the scanned range.
\<close>

definition rightEdgeMarble :: Marble where
  "rightEdgeMarble = Marble_new (Num 10) (Num 1) ''blue''"

text \<open>
  The candidate on the curve \<open>y = 1\<close> for a marble at \<open>(0, 1)\<close>, and an uncollected star
  at \<open>(1, 1)\<close>, on the curve.
\<close>

definition levelPath :: pathData where
  "levelPath = \<lparr>equation = constOne,
     closestPoint = \<lparr>cp_x = Num 0, cp_y = Num 1, cp_distance = Num 0\<rparr>, pd_distance = Num 0\<rparr>"

definition starNear :: star where
  "starNear = \<lparr>star_x = Num 1, star_y = Num 1, star_radius = Num 0.3, collected = False\<rparr>"

text \<open>
  The vertical line \<open>x = 1\<close> as a curve \<open>x = f(y)\<close>, the candidate on it for a marble
  at the origin, and an uncollected star at \<open>(1, 0)\<close>, on the line.
\<close>

definition upright :: equation where
  "upright = \<lparr>eqtype = explicit_x, evaluate = (\<lambda>v. Some (Num 1)), getPoints = (\<lambda>a b c d e. [])\<rparr>"

definition uprightPath :: pathData where
  "uprightPath = \<lparr>equation = upright,
     closestPoint = \<lparr>cp_x = Num 1, cp_y = Num 0, cp_distance = Num 1\<rparr>, pd_distance = Num 1\<rparr>"

definition starOnUpright :: star where
  "starOnUpright = \<lparr>star_x = Num 1, star_y = Num 0, star_radius = Num 0.3, collected = False\<rparr>"

section \<open>Facts about numbers\<close>

lemma jlt_irrefl: "\<not> jlt a a"
  by (cases a) simp_all

lemma jlt_trans: "jlt a b \<Longrightarrow> jlt b c \<Longrightarrow> jlt a c"
  by (cases a; cases b; cases c) simp_all

lemma jlt_le_trans: "jlt a b \<Longrightarrow> \<not> jlt c b \<Longrightarrow> \<not> isNaN c \<Longrightarrow> jlt a c"
  by (cases a; cases b; cases c) simp_all

lemma jlt_not_NaN: "jlt a b \<Longrightarrow> \<not> isNaN a \<and> \<not> isNaN b"
  by (cases a; cases b) simp_all

lemma jlt_iff_not_jle: "\<not> isNaN a \<Longrightarrow> \<not> isNaN b \<Longrightarrow> jlt a b = (\<not> jle b a)"
  by (cases a; cases b) auto

lemma jmax_not_NegInf: "jmax (Num c) v \<noteq> NegInf"
  by (cases v) (simp_all add: jmax_def)

lemma jmin_not_PosInf: "jmin (Num c) v \<noteq> PosInf"
  by (cases v) (simp_all add: jmin_def)

lemma jlt_asym: "jlt a b \<Longrightarrow> jlt b a \<Longrightarrow> False"
  by (cases a; cases b) simp_all

lemma fold_minStep:
  "(if \<exists>e \<in> set es. eligible ok key d0 e
    then \<exists>k. firstMin ok key d0 es k \<and> fold (minStep ok key val) es (v0, d0) = (val (es ! k), key (es ! k))
    else fold (minStep ok key val) es (v0, d0) = (v0, d0))"
proof (induction es rule: rev_induct)
  case Nil
  then show ?case by simp
next
  case (snoc e es)
  let ?f = "fold (minStep ok key val) es (v0, d0)"
  have step: "fold (minStep ok key val) (es @ [e]) (v0, d0) = minStep ok key val e ?f"
    by simp
  show ?case
  proof (cases "\<exists>e \<in> set es. eligible ok key d0 e")
    case False
    then have f: "?f = (v0, d0)"
      using snoc.IH by simp
    show ?thesis
    proof (cases "eligible ok key d0 e")
      case True
      have "firstMin ok key d0 (es @ [e]) (length es)"
        using True False
        by (auto simp: firstMin_def nth_append jlt_irrefl less_Suc_eq)
      moreover have "minStep ok key val e ?f = (val e, key e)"
        using True by (simp add: f minStep_def eligible_def)
      ultimately show ?thesis
        using True step by (auto intro!: exI [of _ "length es"])
    next
      case no: False
      then have "minStep ok key val e ?f = (v0, d0)"
        by (auto simp: f minStep_def eligible_def)
      then show ?thesis
        using no False step by simp
    qed
  next
    case True
    then obtain k where k: "firstMin ok key d0 es k" and f: "?f = (val (es ! k), key (es ! k))"
      using snoc.IH by auto
    have klt: "k < length es" and kel: "eligible ok key d0 (es ! k)"
      using k by (simp_all add: firstMin_def)
    have ex: "\<exists>e' \<in> set (es @ [e]). eligible ok key d0 e'"
      using True by auto
    show ?thesis
    proof (cases "jlt (key e) (key (es ! k)) \<and> ok e")
      case better: True
      have el: "eligible ok key d0 e"
        using better kel by (auto simp: eligible_def intro: jlt_trans)
      have "jlt (key e) (key (es ! j))" if "j < length es" "eligible ok key d0 (es ! j)" for j
      proof -
        have "\<not> jlt (key (es ! j)) (key (es ! k))"
          using k that by (simp add: firstMin_def)
        moreover have "\<not> isNaN (key (es ! j))"
          using that(2) jlt_not_NaN by (auto simp: eligible_def)
        ultimately show ?thesis
          using better jlt_le_trans by blast
      qed
      then have "firstMin ok key d0 (es @ [e]) (length es)"
        using el by (auto simp: firstMin_def nth_append jlt_irrefl less_Suc_eq dest: jlt_asym)
      moreover have "minStep ok key val e ?f = (val e, key e)"
        using better by (simp add: f minStep_def)
      ultimately show ?thesis
        using ex step by (auto intro!: exI [of _ "length es"])
    next
      case worse: False
      have "firstMin ok key d0 (es @ [e]) k"
        using k worse klt
        by (auto simp: firstMin_def nth_append less_Suc_eq eligible_def)
      moreover have "minStep ok key val e ?f = (val (es ! k), key (es ! k))"
        using worse by (auto simp: f minStep_def)
      ultimately show ?thesis
        using ex step klt by (auto simp: nth_append intro!: exI [of _ k])
    qed
  qed
qed

lemma jmul_commute: "jmul a b = jmul b a"
  by (cases a; cases b) (simp_all add: mult.commute)

lemma overflowLimit_pos: "0 < overflowLimit"
  using overflowLimit_large by simp

lemma jsqrt_not_negative: "\<not> jlt (jsqrt v) (Num 0)"
  by (cases v) simp_all

text \<open>Scores: sums of nonnegative terms do not depend on the order of the additions.\<close>

lemma scoreValue_zero: "scoreValue (Num 0)"
  using overflowLimit_pos by (simp add: scoreValue_def)

lemma scoreValue_ofReal: "0 \<le> r \<Longrightarrow> scoreValue (ofReal r)"
  using overflowLimit_pos by (auto simp: scoreValue_def ofReal_def)

lemma scoreValue_jadd:
  assumes "scoreValue a" and "scoreValue b"
  shows "scoreValue (jadd a b)"
  using assms unfolding scoreValue_def
  by (elim disjE exE conjE) (simp_all add: scoreValue_ofReal [unfolded scoreValue_def])

lemma scoreValue_nonneg: "scoreValue a \<Longrightarrow> jle (Num 0) a"
  by (auto simp: scoreValue_def)

lemma scoreValue_zero_right: "scoreValue a \<Longrightarrow> jadd a (Num 0) = a"
  by (auto simp: scoreValue_def ofReal_def)

lemma scoreValue_zero_left: "scoreValue a \<Longrightarrow> jadd (Num 0) a = a"
  by (auto simp: scoreValue_def ofReal_def)

lemma scoreValue_assoc:
  "scoreValue a \<Longrightarrow> scoreValue b \<Longrightarrow> scoreValue c \<Longrightarrow> jadd (jadd a b) c = jadd a (jadd b c)"
  by (cases a; cases b; cases c) (auto simp: scoreValue_def ofReal_def add.assoc)

lemma scoreValue_proximity: "jlt d (Num 2) \<Longrightarrow> scoreValue (jmul (jsub (Num 2) d) (Num 100))"
proof (cases d)
  case (Num r)
  assume "jlt d (Num 2)"
  then have pos: "0 < 2 - r"
    using Num by simp
  show ?thesis
  proof (cases "overflowLimit \<le> 2 - r")
    case True
    then show ?thesis
      using Num by (simp add: jsub_def ofReal_def scoreValue_def)
  next
    case False
    then have "jsub (Num 2) d = Num (2 - r)"
      using Num pos overflowLimit_pos by (simp add: jsub_def ofReal_def)
    then show ?thesis
      using pos by (simp add: scoreValue_ofReal)
  qed
qed (simp_all add: jsub_def scoreValue_def)

lemma scoreValue_heading: "jlt (Num 0) d \<Longrightarrow> scoreValue (jmul d (Num 10))"
  by (cases d) (simp_all add: scoreValue_ofReal, simp add: scoreValue_def)

lemma jmin_PosInf_right: "jmin a PosInf = a"
  by (cases a) (simp_all add: jmin_def)

lemma jlt_jneg: "jlt (jneg a) (jneg b) = jlt b a"
  by (cases a; cases b) simp_all

lemma jneg_jneg: "jneg (jneg a) = a"
  by (cases a) simp_all

lemma jmin_assoc: "jmin (jmin a b) c = jmin a (jmin b c)"
  by (cases a; cases b; cases c) (simp_all add: jmin_def)

section \<open>Bounds check\<close>

text \<open>
  C8, as the claim states it, fails: with a NaN coordinate every comparison of
  \<^verbatim>\<open>checkBounds\<close> is false, so the marble counts as in bounds although it lies in no
  rectangle.
\<close>

theorem checkBounds_NaN_position:
  "checkBounds PhysicsEngine_new (Marble_new NaN (Num 0) ''blue'')
     \<lparr>minX = Num (- 10), maxX = Num 10, minY = Num (- 10), maxY = Num 10\<rparr>
   \<and> \<not> insideBounds (Marble_new NaN (Num 0) ''blue'')
     \<lparr>minX = Num (- 10), maxX = Num 10, minY = Num (- 10), maxY = Num 10\<rparr>"
  by (simp add: checkBounds_def insideBounds_def Marble_new_def jgt_def)

text \<open>
  C8, amended: when neither coordinate of the position nor any bound is NaN,
  \<^verbatim>\<open>checkBounds\<close> returns true if and only if the position lies in
  \<open>[minX, maxX] \<times> [minY, maxY]\<close>, the boundary included. A marble at exactly
  \<open>x = minX\<close>, its other coordinate inside, is in bounds; a marble at \<open>x = minX - e\<close> for
  any \<open>e > 0\<close> is out of bounds.
\<close>

theorem checkBounds_inclusive:
  assumes "\<not> isNaN (xcoord (position marble))" and "\<not> isNaN (ycoord (position marble))"
    and "\<not> isNaN (minX b)" and "\<not> isNaN (maxX b)" and "\<not> isNaN (minY b)" and "\<not> isNaN (maxY b)"
  shows "checkBounds physics marble b = insideBounds marble b
    \<and> (xcoord (position marble) = minX b \<and> jle (minX b) (maxX b)
         \<and> jle (minY b) (ycoord (position marble)) \<and> jle (ycoord (position marble)) (maxY b)
        \<longrightarrow> checkBounds physics marble b)
    \<and> (\<forall>a e. minX b = Num a \<and> 0 < e \<and> xcoord (position marble) = Num (a - e)
        \<longrightarrow> \<not> checkBounds physics marble b)"
proof -
  have iff: "checkBounds physics marble b = insideBounds marble b"
    using assms
    by (auto simp: checkBounds_def insideBounds_def jgt_def Let_def jlt_iff_not_jle)
  have edge: "xcoord (position marble) = minX b \<Longrightarrow> jle (minX b) (minX b)"
    using assms(3) by (cases "minX b") simp_all
  show ?thesis
    unfolding iff using edge by (auto simp: insideBounds_def)
qed

theorem checkBounds_inclusive_witness:
  "checkBounds PhysicsEngine_new (Marble_new (Num (- 10)) (Num 0) ''blue'')
     \<lparr>minX = Num (- 10), maxX = Num 10, minY = Num (- 10), maxY = Num 10\<rparr>
   \<and> \<not> checkBounds PhysicsEngine_new (Marble_new (Num (- 10 - 1 / 1000)) (Num 0) ''blue'')
     \<lparr>minX = Num (- 10), maxX = Num 10, minY = Num (- 10), maxY = Num 10\<rparr>"
  using checkBounds_inclusive [of "Marble_new (Num (- 10)) (Num 0) ''blue''"
      "\<lparr>minX = Num (- 10), maxX = Num 10, minY = Num (- 10), maxY = Num 10\<rparr>" PhysicsEngine_new]
    checkBounds_inclusive [of "Marble_new (Num (- 10 - 1 / 1000)) (Num 0) ''blue''"
      "\<lparr>minX = Num (- 10), maxX = Num 10, minY = Num (- 10), maxY = Num 10\<rparr>" PhysicsEngine_new]
  by (simp add: Marble_new_def insideBounds_def)

section \<open>Central difference\<close>

lemma half_step: "jdiv (Num 0.01) (Num 2) = Num 0.005"
  by simp

lemma central_quotient: "jdiv (jsub (Num b) (Num a)) (Num 0.01) = ofReal ((b - a) / 0.01)"
  using overflowLimit_pos by (auto simp: jsub_def ofReal_def)

text \<open>
  C3, as the claim states it, fails in the direction "returns 0 only when a sample
  fails": on the constant curve \<open>y = 1\<close> both half-step samples are finite and the
  central difference itself is 0.
\<close>

theorem calculateDerivative_zero_on_constant:
  "calculateDerivative PhysicsEngine_new constOne (Num 0) (Num 0.01) = Num 0
   \<and> \<not> sampleFails (evaluate constOne (jsub (Num 0) (Num 0.005)))
   \<and> \<not> sampleFails (evaluate constOne (jadd (Num 0) (Num 0.005)))"
  by (simp add: calculateDerivative_def constOne_def jsub_def)

text \<open>
  C3, amended: for every equation and every \<open>x\<close>, \<^verbatim>\<open>calculateDerivative(eq, x)\<close> returns
  0 whenever a half-step sample \<^verbatim>\<open>eq.evaluate(x - 0.005)\<close> or
  \<^verbatim>\<open>eq.evaluate(x + 0.005)\<close> is non-finite or its evaluation throws, and otherwise
  returns the central difference of the two samples divided by 0.01 (which is 0 when
  the samples are equal); it never returns NaN. The difference and the quotient are
  those of the doubles: the result is the real quotient \<open>(b - a) / 0.01\<close> of the samples
  \<open>a\<close> and \<open>b\<close> whenever that is within the range of the doubles, and an infinity of
  its sign beyond.
\<close>

theorem calculateDerivative_central:
  "(sampleFails (evaluate eq (jsub x (Num 0.005))) \<or> sampleFails (evaluate eq (jadd x (Num 0.005)))
      \<longrightarrow> calculateDerivative physics eq x (Num 0.01) = Num 0)
   \<and> (\<forall>a b. evaluate eq (jsub x (Num 0.005)) = Some (Num a)
           \<and> evaluate eq (jadd x (Num 0.005)) = Some (Num b)
         \<longrightarrow> calculateDerivative physics eq x (Num 0.01) = jdiv (jsub (Num b) (Num a)) (Num 0.01)
           \<and> (\<bar>(b - a) / 0.01\<bar> < overflowLimit
                \<longrightarrow> calculateDerivative physics eq x (Num 0.01) = Num ((b - a) / 0.01))
           \<and> (overflowLimit \<le> (b - a) / 0.01
                \<longrightarrow> calculateDerivative physics eq x (Num 0.01) = PosInf)
           \<and> ((b - a) / 0.01 \<le> - overflowLimit
                \<longrightarrow> calculateDerivative physics eq x (Num 0.01) = NegInf))
   \<and> \<not> isNaN (calculateDerivative physics eq x (Num 0.01))"
proof (cases "evaluate eq (jsub x (Num 0.005))")
  case None
  then show ?thesis
    by (simp add: calculateDerivative_def half_step)
next
  case s1: (Some y1)
  show ?thesis
  proof (cases "evaluate eq (jadd x (Num 0.005))")
    case None
    then show ?thesis
      using s1 by (simp add: calculateDerivative_def half_step)
  next
    case s2: (Some y2)
    show ?thesis
      using s1 s2 overflowLimit_pos
      by (cases y1; cases y2)
         (simp_all add: calculateDerivative_def half_step central_quotient,
          auto simp: ofReal_def jsub_def)
  qed
qed

theorem calculateDerivative_central_witness:
  "calculateDerivative PhysicsEngine_new parabola (Num 1) (Num 0.01) = Num 2"
  using calculateDerivative_central
    [THEN conjunct2, THEN conjunct1, rule_format,
     where eq = parabola and x = "Num 1" and a = "0.990025" and b = "1.010025"
       and physics = PhysicsEngine_new]
  by (simp add: parabola_def jsub_def)

section \<open>The stages of an update\<close>

lemma pushTrail_fields:
  "position (pushTrail m) = position m" "velocity (pushTrail m) = velocity m"
  "maxTrailLength (pushTrail m) = maxTrailLength m" "pathThreshold (pushTrail m) = pathThreshold m"
  "onPath (pushTrail m) = onPath m" "stars (pushTrail m) = stars m"
  by (simp_all add: pushTrail_def Let_def)

lemma pushTrail_length:
  "length (trail m) \<le> maxTrailLength m \<Longrightarrow> length (trail (pushTrail m)) \<le> maxTrailLength m"
  by (simp add: pushTrail_def Let_def)

lemma followPath_trail:
  "trail (followPath physics w pd m) = trail m"
  "maxTrailLength (followPath physics w pd m) = maxTrailLength m"
  by (simp_all add: followPath_def Let_def)

lemma freeFall_trail:
  "trail (freeFall physics m) = trail m"
  "maxTrailLength (freeFall physics m) = maxTrailLength m"
  by (simp_all add: freeFall_def applyGravity_def Let_def)

lemma moveMarble_trail:
  "trail (moveMarble physics equations m) = trail (pushTrail m)"
  "maxTrailLength (moveMarble physics equations m) = maxTrailLength m"
  by (simp_all add: moveMarble_def Let_def updatePosition_def applyFriction_def
      followPath_trail freeFall_trail pushTrail_fields split: option.splits)

lemma antiStall_trail:
  "trail (antiStall m) = trail m" "maxTrailLength (antiStall m) = maxTrailLength m"
  by (simp_all add: antiStall_def)

lemma findClosestPointOnPath_pushTrail:
  "findClosestPointOnPath physics (pushTrail m) eq r = findClosestPointOnPath physics m eq r"
  by (simp add: findClosestPointOnPath_def findClosestPointExplicitY_def
      findClosestPointExplicitX_def findClosestPointImplicit_def pushTrail_fields
      split: eqkind.split)

lemma candidatePathsOf_pushTrail:
  "candidatePathsOf physics (pushTrail m) equations = candidatePathsOf physics m equations"
  by (simp add: candidatePathsOf_def findClosestPointOnPath_pushTrail pushTrail_fields
      cong: option.case_cong)

lemma selectBestPath_no_candidates:
  "candidatePathsOf physics m equations = [] \<Longrightarrow> selectBestPath physics (pushTrail m) equations = None"
  by (simp add: selectBestPath_def candidatePathsOf_pushTrail)

text \<open>The velocity after \<^verbatim>\<open>updatePosition\<close>, in free fall and on a path.\<close>

lemma moveMarble_velocity_freeFall:
  "selectBestPath physics (pushTrail m) equations = None \<Longrightarrow>
   velocity (moveMarble physics equations m) =
     \<lparr>xcoord = jmul (jmul (xcoord (velocity m)) (Num 0.995)) (friction physics),
      ycoord = jmul (jmul (jadd (ycoord (velocity m)) (gravity physics)) (Num 0.995)) (friction physics)\<rparr>"
  by (simp add: moveMarble_def Let_def updatePosition_def applyFriction_def freeFall_def
      applyGravity_def pushTrail_fields)

lemma moveMarble_velocity_followPath:
  "selectBestPath physics (pushTrail m) equations = Some pd \<Longrightarrow>
   velocity (moveMarble physics equations m) =
     (let b = (if onPath m then Num 0.8 else Num 0.5);
          px = jadd (xcoord (position m))
                 (jmul (jsub (cp_x (closestPoint pd)) (xcoord (position m))) (pathSnapStrength physics));
          pathVel = calculatePathVelocity physics (equation pd) px None
      in \<lparr>xcoord = jmul (jadd (jmul (xcoord (velocity m)) (jsub (Num 1) b)) (jmul (xcoord pathVel) b))
                     (friction physics),
          ycoord = jmul (jadd (jadd (jmul (ycoord (velocity m)) (jsub (Num 1) b)) (jmul (ycoord pathVel) b))
                            (jmul (gravity physics) (Num 0.3)))
                     (friction physics)\<rparr>)"
  by (simp add: moveMarble_def Let_def updatePosition_def applyFriction_def followPath_def
      pushTrail_fields)

lemma engine_fields:
  "gravity PhysicsEngine_new = Num (- 0.15)" "friction PhysicsEngine_new = Num 0.98"
  "pathSnapStrength PhysicsEngine_new = Num 0.3" "pathFollowSpeed PhysicsEngine_new = Num 0.12"
  by (simp_all add: PhysicsEngine_new_def)

section \<open>Trail\<close>

text \<open>
  C9: the invariant \<open>trail.length \<le> maxTrailLength\<close> is preserved by every update: if
  the trail has at most \<open>maxTrailLength\<close> entries before \<^verbatim>\<open>update\<close>, it has at most
  \<open>maxTrailLength\<close> entries after it, and \<open>maxTrailLength\<close> (25 for a constructed
  marble) does not change. The update appends the current position and drops the oldest
  entry when the length then exceeds \<open>maxTrailLength\<close>.
\<close>

theorem update_keeps_trail_bounded:
  "length (trail m) \<le> maxTrailLength m \<Longrightarrow>
     length (trail (Marble_update physics equations m))
       \<le> maxTrailLength (Marble_update physics equations m)
     \<and> maxTrailLength (Marble_update physics equations m) = maxTrailLength m
     \<and> trail (Marble_update physics equations m)
         = (let t = trail m @ [\<lparr>xcoord = xcoord (position m), ycoord = ycoord (position m)\<rparr>]
            in if maxTrailLength m < length t then tl t else t)"
  by (simp add: Marble_update_def antiStall_trail moveMarble_trail pushTrail_length)
     (simp add: pushTrail_def Let_def)

theorem update_keeps_trail_bounded_witness:
  "length (trail fullTrailMarble) = 25 \<and> maxTrailLength fullTrailMarble = 25
   \<and> length (trail (Marble_update PhysicsEngine_new [] fullTrailMarble)) = 25"
  using update_keeps_trail_bounded [of fullTrailMarble PhysicsEngine_new "[]"]
  by (simp add: fullTrailMarble_def Marble_new_def Let_def)

section \<open>Anti-stall\<close>

lemma antiStall_velocity:
  "velocity (antiStall m) =
     (if stalled m then \<lparr>xcoord = jadd (xcoord (velocity m)) (Num 0.01), ycoord = ycoord (velocity m)\<rparr>
      else velocity m)"
  by (simp add: antiStall_def stalled_def)

lemma nudge_range:
  "jlt (jabs v) (Num 0.001) \<Longrightarrow>
     jlt (Num 0.009) (jadd v (Num 0.01)) \<and> jlt (jadd v (Num 0.01)) (Num 0.011)
     \<and> \<not> jlt (jabs (jadd v (Num 0.01))) (Num 0.001)"
  by (cases v) auto

lemma antiStall_not_stalled: "\<not> stalled (antiStall m)"
proof (cases "stalled m")
  case True
  then have "jlt (jabs (xcoord (velocity m))) (Num 0.001)"
    by (simp add: stalled_def)
  from nudge_range [OF this] True show ?thesis
    by (simp add: stalled_def antiStall_velocity)
next
  case False
  then have "antiStall m = m"
    by (auto simp: antiStall_def stalled_def)
  then show ?thesis
    using False by simp
qed

text \<open>
  C2, as the claim states it, fails: in free fall gravity is added to \<open>velocity.y\<close>
  before the check, so after the tick \<open>|velocity.y|\<close> is far above 0.001, the nudge does
  not fire, and \<open>velocity.x = 0.00048755\<close> is below 0.01.
\<close>

theorem slow_marble_is_not_nudged:
  "\<not> nudgedOrFast PhysicsEngine_new [] slowMarble"
proof -
  have sel: "selectBestPath PhysicsEngine_new (pushTrail slowMarble) [] = None"
    by (simp add: selectBestPath_no_candidates candidatePathsOf_def)
  have v: "velocity (moveMarble PhysicsEngine_new [] slowMarble)
             = \<lparr>xcoord = Num 0.00048755, ycoord = Num (- 0.14655753)\<rparr>"
    unfolding moveMarble_velocity_freeFall [OF sel]
    by (simp add: slowMarble_def PhysicsEngine_new_def Marble_new_def)
  show ?thesis
    by (simp add: nudgedOrFast_def Marble_update_def antiStall_def v jge_def)
qed

text \<open>
  C2, amended: for a marble whose velocity is \<open>(0.0005, -0.0003)\<close> at the start of a
  tick and with no path within its path threshold, one update with the default engine
  (gravity -0.15, air resistance 0.995, friction 0.98) leaves the velocity
  \<open>(0.00048755, -0.14655753)\<close>; the anti-stall nudge does not fire, so \<open>velocity.x\<close>
  is not incremented and \<open>|velocity.x| < 0.01\<close>.
\<close>

theorem free_fall_of_slow_marble:
  assumes "velocity m = \<lparr>xcoord = Num 0.0005, ycoord = Num (- 0.0003)\<rparr>"
    and "candidatePathsOf PhysicsEngine_new m equations = []"
  shows "velocity (Marble_update PhysicsEngine_new equations m)
           = \<lparr>xcoord = Num 0.00048755, ycoord = Num (- 0.14655753)\<rparr>
    \<and> velocity (Marble_update PhysicsEngine_new equations m)
           = velocity (moveMarble PhysicsEngine_new equations m)
    \<and> \<not> nudgedOrFast PhysicsEngine_new equations m"
proof -
  have sel: "selectBestPath PhysicsEngine_new (pushTrail m) equations = None"
    using assms(2) by (rule selectBestPath_no_candidates)
  have v: "velocity (moveMarble PhysicsEngine_new equations m)
             = \<lparr>xcoord = Num 0.00048755, ycoord = Num (- 0.14655753)\<rparr>"
    unfolding moveMarble_velocity_freeFall [OF sel]
    by (simp add: assms(1) PhysicsEngine_new_def)
  show ?thesis
    by (simp add: nudgedOrFast_def Marble_update_def antiStall_def v jge_def)
qed

theorem free_fall_of_slow_marble_witness:
  "velocity (Marble_update PhysicsEngine_new [] slowMarble)
     = \<lparr>xcoord = Num 0.00048755, ycoord = Num (- 0.14655753)\<rparr>"
  using free_fall_of_slow_marble [of slowMarble "[]"]
  by (simp add: slowMarble_def candidatePathsOf_def)

section \<open>Velocity on a path\<close>

text \<open>
  C6: on a tick in which a path is selected, the velocity becomes
  \<open>old * (1 - b) + pathVelocity * b\<close> with \<open>b = 0.8\<close> if the marble was on a path before
  the tick and \<open>b = 0.5\<close> otherwise, \<open>gravity * 0.3\<close> is added to \<open>velocity.y\<close>, and
  then both components are multiplied by the friction factor, 0.98 in a constructed
  engine; the same factor is applied in free fall. The path velocity is taken at the
  snapped \<open>x\<close>. The anti-stall check follows.
\<close>

theorem update_velocity_blend:
  "(\<forall>pd. selectBestPath physics (pushTrail m) equations = Some pd \<longrightarrow>
      velocity (moveMarble physics equations m) =
        (let b = (if onPath m then Num 0.8 else Num 0.5);
             px = jadd (xcoord (position m))
                    (jmul (jsub (cp_x (closestPoint pd)) (xcoord (position m)))
                       (pathSnapStrength physics));
             pathVel = calculatePathVelocity physics (equation pd) px None
         in \<lparr>xcoord = jmul (jadd (jmul (xcoord (velocity m)) (jsub (Num 1) b))
                                (jmul (xcoord pathVel) b))
                        (friction physics),
             ycoord = jmul (jadd (jadd (jmul (ycoord (velocity m)) (jsub (Num 1) b))
                                      (jmul (ycoord pathVel) b))
                                (jmul (gravity physics) (Num 0.3)))
                        (friction physics)\<rparr>))
   \<and> (selectBestPath physics (pushTrail m) equations = None \<longrightarrow>
      velocity (moveMarble physics equations m) =
        \<lparr>xcoord = jmul (jmul (xcoord (velocity m)) (Num 0.995)) (friction physics),
         ycoord = jmul (jmul (jadd (ycoord (velocity m)) (gravity physics)) (Num 0.995))
                    (friction physics)\<rparr>)
   \<and> Marble_update physics equations m = antiStall (moveMarble physics equations m)
   \<and> friction PhysicsEngine_new = Num 0.98"
  using moveMarble_velocity_followPath [of physics m equations]
    moveMarble_velocity_freeFall [of physics m equations]
  by (simp add: Marble_update_def PhysicsEngine_new_def)

theorem update_velocity_blend_witness:
  "selectBestPath PhysicsEngine_new (pushTrail (Marble_new (Num 0) (Num 0) ''blue'')) [segment]
     = Some \<lparr>equation = segment,
             closestPoint = \<lparr>cp_x = Num 0, cp_y = Num 0, cp_distance = Num 0\<rparr>,
             pd_distance = Num 0\<rparr>
   \<and> velocity (moveMarble PhysicsEngine_new [segment] (Marble_new (Num 0) (Num 0) ''blue''))
     = \<lparr>xcoord = Num 0.0833, ycoord = Num (- 0.0441)\<rparr>"
proof -
  let ?fresh = "Marble_new (Num 0) (Num 0) ''blue''"
  let ?pd = "\<lparr>equation = segment,
             closestPoint = \<lparr>cp_x = Num 0, cp_y = Num 0, cp_distance = Num 0\<rparr>,
             pd_distance = Num 0\<rparr>"
  have cp: "findClosestPointOnPath PhysicsEngine_new ?fresh segment (Num 2)
              = Some \<lparr>cp_x = Num 0, cp_y = Num 0, cp_distance = Num 0\<rparr>"
    by (simp add: findClosestPointOnPath_def findClosestPointImplicit_def segment_def
        Marble_new_def pointDistance_def stepImplicit_def jsub_def jsquare_def Let_def)
  have sel: "selectBestPath PhysicsEngine_new (pushTrail ?fresh) [segment] = Some ?pd"
    unfolding selectBestPath_def candidatePathsOf_pushTrail
    by (simp add: candidatePathsOf_def cp findBestPathTowardStars_def)
       (simp add: Marble_new_def)
  have pv: "calculatePathVelocity PhysicsEngine_new segment (Num 0) None
              = \<lparr>xcoord = Num 0.12, ycoord = Num 0\<rparr>"
    by (simp add: calculatePathVelocity_def calculateImplicitVelocity_def segment_def
        implicitStep_def jsub_def jne_def Let_def PhysicsEngine_new_def)
  show ?thesis
    using update_velocity_blend [of PhysicsEngine_new ?fresh "[segment]"] sel
    by (simp add: Let_def Marble_new_def engine_fields jsub_def pv)
qed

section \<open>Tangent of an implicit curve\<close>

lemma implicitStep_minStep:
  "implicitStep x prev p = minStep pairMoves (pairDistance x) pairDirection (prev, p)"
  by (rule ext)
     (auto simp: implicitStep_def minStep_def pairMoves_def pairDistance_def pairDirection_def Let_def)

lemma implicitLoop_fold:
  "implicitLoop x prev ps st
     = fold (minStep pairMoves (pairDistance x) pairDirection) (zip (prev # ps) ps) st"
  by (induction ps arbitrary: prev st) (simp_all add: implicitStep_minStep)

text \<open>
  C5, as the claim states it, fails: the loop measures the distance to the query at
  \<^verbatim>\<open>points[i]\<close>, the second point of the pair \<^verbatim>\<open>(points[i-1], points[i])\<close>. On
  the samples \<open>(0, 0)\<close>, \<open>(1, 0)\<close>, \<open>(0, 0)\<close> with the query at 0, the first point
  closest to the query belongs to the first pair, of direction \<open>(1, 0)\<close>; the code
  returns the direction \<open>(-1, 0)\<close> of the second pair.
\<close>

theorem implicit_velocity_second_point:
  "calculateImplicitVelocity PhysicsEngine_new zigzag (Num 0) (Num 1)
     = \<lparr>xcoord = Num (- 1), ycoord = Num 0\<rparr>
   \<and> specImplicitTangent zigzag (Num 0) (Num 1) = \<lparr>xcoord = Num 1, ycoord = Num 0\<rparr>"
  by (simp add: calculateImplicitVelocity_def specImplicitTangent_def zigzag_def Let_def
      implicitStep_def minStep_def firstPointDistance_def pairDirection_def jsub_def jne_def)

text \<open>
  C5, amended: the implicit tangent estimate samples points around \<open>x\<close> with the curve's
  \<^verbatim>\<open>getPoints\<close>. With fewer than 2 points it returns \<open>(speed, 0)\<close>. Otherwise, among
  the consecutive pairs whose two points differ and whose second point is at a distance
  below \<^verbatim>\<open>Infinity\<close> in \<open>x\<close> from the query, it takes the first pair whose second
  point is closest in \<open>x\<close> to the query and returns the normalised \<open>(dx, dy)\<close> of
  that pair scaled by \<open>speed\<close>; when there is no such pair it returns
  \<open>(speed * 1, speed * 0)\<close>. \<^verbatim>\<open>calculatePathVelocity\<close> delegates to it for an implicit
  curve.
\<close>

theorem implicit_velocity_nearest_pair:
  "(let ps = getPoints eq (jsub x (Num 0.1)) (jadd x (Num 0.1)) (Num (- 10)) (Num 10) (Num 20);
        pairs = zip ps (tl ps);
        v = calculateImplicitVelocity physics eq x speed
    in (length ps < 2 \<longrightarrow> v = \<lparr>xcoord = speed, ycoord = Num 0\<rparr>)
     \<and> (2 \<le> length ps \<longrightarrow>
          (if \<exists>pr \<in> set pairs. eligible pairMoves (pairDistance x) PosInf pr
           then \<exists>k. firstMin pairMoves (pairDistance x) PosInf pairs k
                  \<and> v = \<lparr>xcoord = jmul speed (xcoord (pairDirection (pairs ! k))),
                         ycoord = jmul speed (ycoord (pairDirection (pairs ! k)))\<rparr>
           else v = \<lparr>xcoord = jmul speed (Num 1), ycoord = jmul speed (Num 0)\<rparr>)))
   \<and> (eqtype eq = implicit \<longrightarrow>
        calculatePathVelocity physics eq x None
          = calculateImplicitVelocity physics eq x (pathFollowSpeed physics))"
proof -
  let ?ps = "getPoints eq (jsub x (Num 0.1)) (jadd x (Num 0.1)) (Num (- 10)) (Num 10) (Num 20)"
  let ?pairs = "zip ?ps (tl ?ps)"
  let ?v = "calculateImplicitVelocity physics eq x speed"
  let ?init = "\<lparr>xcoord = Num 1, ycoord = Num 0\<rparr>"
  have short: "?v = \<lparr>xcoord = speed, ycoord = Num 0\<rparr>" if "length ?ps < 2"
    unfolding calculateImplicitVelocity_def Let_def if_P [OF that] ..
  have long: "?v = \<lparr>xcoord = jmul speed (xcoord (fst (fold (minStep pairMoves (pairDistance x) pairDirection) ?pairs (?init, PosInf)))),
                     ycoord = jmul speed (ycoord (fst (fold (minStep pairMoves (pairDistance x) pairDirection) ?pairs (?init, PosInf))))\<rparr>"
    if "2 \<le> length ?ps"
  proof -
    have "\<exists>p0 rest. qs = p0 # rest" if "2 \<le> length qs" for qs :: "vec2 list"
      using that by (cases qs) auto
    from this [OF that] obtain p0 rest where ps: "?ps = p0 # rest"
      by blast
    show ?thesis
      unfolding calculateImplicitVelocity_def Let_def ps
      using that [unfolded ps] by (auto simp: implicitLoop_fold)
  qed
  have sel: "if \<exists>pr \<in> set ?pairs. eligible pairMoves (pairDistance x) PosInf pr
           then \<exists>k. firstMin pairMoves (pairDistance x) PosInf ?pairs k
                  \<and> ?v = \<lparr>xcoord = jmul speed (xcoord (pairDirection (?pairs ! k))),
                         ycoord = jmul speed (ycoord (pairDirection (?pairs ! k)))\<rparr>
           else ?v = \<lparr>xcoord = jmul speed (Num 1), ycoord = jmul speed (Num 0)\<rparr>"
    if "2 \<le> length ?ps"
    using fold_minStep [of ?pairs pairMoves "pairDistance x" PosInf pairDirection ?init]
    unfolding long [OF that]
    by (auto split: if_splits)
  have disp: "calculatePathVelocity physics eq x None
          = calculateImplicitVelocity physics eq x (pathFollowSpeed physics)"
    if "eqtype eq = implicit"
    using that by (simp add: calculatePathVelocity_def)
  show ?thesis
    unfolding Let_def using short sel disp by blast
qed

theorem implicit_velocity_nearest_pair_witness:
  "calculateImplicitVelocity PhysicsEngine_new segment (Num 0) (Num 0.12)
     = \<lparr>xcoord = Num 0.12, ycoord = Num 0\<rparr>"
  using implicit_velocity_nearest_pair [of segment "Num 0" PhysicsEngine_new "Num 0.12"]
  by (auto simp: segment_def Let_def firstMin_def eligible_def pairMoves_def pairDistance_def
      pairDirection_def jsub_def jne_def)

section \<open>Closest point on an explicit curve\<close>

lemma stepExplicitY_minStep:
  "stepExplicitY eq marbleX marbleY = minStep (sampleOK eq) (sampleDistance eq marbleX marbleY) Num"
proof (intro ext)
  fix x st
  show "stepExplicitY eq marbleX marbleY x st
          = minStep (sampleOK eq) (sampleDistance eq marbleX marbleY) Num x st"
  proof (cases "evaluate eq (Num x)")
    case None
    then show ?thesis
      by (simp add: stepExplicitY_def minStep_def sampleOK_def)
  next
    case (Some y)
    then show ?thesis
      by (cases y) (simp_all add: stepExplicitY_def minStep_def sampleOK_def sampleDistance_def Let_def)
  qed
qed

lemma forExplicitY_fold:
  "forExplicitY eq marbleX marbleY startX endX st
     = fold (minStep (sampleOK eq) (sampleDistance eq marbleX marbleY) Num) (scannedXs startX endX) st"
  by (simp add: forExplicitY_def stepExplicitY_minStep)

lemma findClosestPointExplicitY_scan:
  "findClosestPointExplicitY physics marble eq r =
     (let marbleX = xcoord (position marble);
          marbleY = ycoord (position marble);
          st = fold (minStep (sampleOK eq) (sampleDistance eq marbleX marbleY) Num)
                 (scannedXs (jmax (Num (- 10)) (jsubRounded marbleX r))
                    (jmin (Num 10) (jaddRounded marbleX r)))
                 (marbleX, PosInf)
      in case evaluate eq (fst st) of
           None \<Rightarrow> None
         | Some closestY \<Rightarrow> Some \<lparr>cp_x = fst st, cp_y = closestY, cp_distance = snd st\<rparr>)"
  by (simp add: findClosestPointExplicitY_def forExplicitY_fold Let_def)

lemma sampleOK_iff: "sampleOK eq x = (\<exists>y. evaluate eq (Num x) = Some (Num y))"
  by (auto simp: sampleOK_def split: option.splits jsnum.splits)

text \<open>The counter of a scan: where it starts, how it moves and where it stops.\<close>

lemma scanValues_window:
  assumes "- 10 \<le> a" and "b \<le> 10"
  shows "scanValues b a =
     (if a \<le> b then
        a # (case jaddRounded (Num a) (fl 0.05) of Num a' \<Rightarrow> scanValues b a' | _ \<Rightarrow> [])
      else [])"
  using assms by (subst scanValues.simps) simp

lemma scanValues_outside: "b < a \<Longrightarrow> scanValues b a = []"
  by (subst scanValues.simps) simp

lemma scanValues_bounds: "x \<in> set (scanValues b a) \<Longrightarrow> a \<le> x \<and> x \<le> b"
proof (induction b a rule: scanValues.induct)
  case (1 endX x0)
  show ?case
  proof (cases "x0 \<le> endX \<and> - 10 \<le> x0 \<and> endX \<le> 10")
    case False
    then have "scanValues endX x0 = []"
      by (subst scanValues.simps) simp
    with "1.prems" show ?thesis
      by simp
  next
    case True
    show ?thesis
    proof (cases "jaddRounded (Num x0) (fl 0.05)")
      case (Num x')
      have up: "x0 \<le> x'"
        using step_progress(1) [of x0 x'] True Num by simp
      have "scanValues endX x0 = x0 # scanValues endX x'"
        using True Num by (subst scanValues.simps) simp
      with "1.prems" have "x = x0 \<or> x \<in> set (scanValues endX x')"
        by simp
      then show ?thesis
        using "1.IH" [OF True Num] True up by auto
    next
      case PosInf
      then have "scanValues endX x0 = [x0]"
        using True by (subst scanValues.simps) simp
      with "1.prems" True show ?thesis
        by simp
    next
      case NegInf
      then have "scanValues endX x0 = [x0]"
        using True by (subst scanValues.simps) simp
      with "1.prems" True show ?thesis
        by simp
    next
      case NaN
      then have "scanValues endX x0 = [x0]"
        using True by (subst scanValues.simps) simp
      with "1.prems" True show ?thesis
        by simp
    qed
  qed
qed

lemma scanValues_cases:
  "scanValues b a = []
   \<or> (\<exists>a'. jaddRounded (Num a) (fl 0.05) = Num a' \<and> a \<le> b \<and> - 10 \<le> a \<and> b \<le> 10
          \<and> scanValues b a = a # scanValues b a')"
proof (cases "a \<le> b \<and> - 10 \<le> a \<and> b \<le> 10")
  case False
  then have "scanValues b a = []"
    by (subst scanValues.simps) simp
  then show ?thesis
    by simp
next
  case True
  then have "- 10 \<le> a" and "a \<le> 10"
    by simp_all
  from step_rounded [OF this] obtain a' where a': "jaddRounded (Num a) (fl 0.05) = Num a'"
    by blast
  then have "scanValues b a = a # scanValues b a'"
    using True by (subst scanValues.simps) simp
  with a' True show ?thesis
    by blast
qed

lemma scanValues_steps:
  "Suc k < length (scanValues b a) \<Longrightarrow>
     Num (scanValues b a ! Suc k) = jaddRounded (Num (scanValues b a ! k)) (fl 0.05)"
proof (induction b a arbitrary: k rule: scanValues.induct)
  case (1 endX x0)
  from scanValues_cases [of endX x0] "1.prems" obtain x'
    where nxt: "jaddRounded (Num x0) (fl 0.05) = Num x'"
      and guard: "x0 \<le> endX \<and> - 10 \<le> x0 \<and> endX \<le> 10"
      and unfold: "scanValues endX x0 = x0 # scanValues endX x'"
    by auto
  have rest: "scanValues endX x' \<noteq> []"
    using "1.prems" unfold by auto
  show ?case
  proof (cases k)
    case 0
    from scanValues_cases [of endX x'] rest obtain x''
      where "scanValues endX x' = x' # scanValues endX x''"
      by auto
    then show ?thesis
      using 0 unfold nxt by simp
  next
    case (Suc j)
    have "Suc j < length (scanValues endX x')"
      using "1.prems" unfold Suc by simp
    from "1.IH" [OF guard nxt this] show ?thesis
      using unfold Suc by simp
  qed
qed

lemma scanValues_last:
  "scanValues b a \<noteq> [] \<Longrightarrow> b < last (scanValues b a) + 1 / 20 + 1 / 2 ^ 48"
proof (induction b a rule: scanValues.induct)
  case (1 endX x0)
  from scanValues_cases [of endX x0] "1.prems" obtain x'
    where nxt: "jaddRounded (Num x0) (fl 0.05) = Num x'"
      and guard: "x0 \<le> endX \<and> - 10 \<le> x0 \<and> endX \<le> 10"
      and unfold: "scanValues endX x0 = x0 # scanValues endX x'"
    by auto
  show ?case
  proof (cases "scanValues endX x' = []")
    case False
    from "1.IH" [OF guard nxt False] show ?thesis
      using unfold False by simp
  next
    case True
    have "\<not> (x' \<le> endX \<and> - 10 \<le> x' \<and> endX \<le> 10)"
    proof
      assume "x' \<le> endX \<and> - 10 \<le> x' \<and> endX \<le> 10"
      then have "scanValues endX x' \<noteq> []"
        by (subst scanValues.simps) simp
      with True show False
        by simp
    qed
    moreover have "x0 \<le> 10"
      using guard by simp
    moreover have "x0 + 1 / 25 \<le> x'"
      using step_progress(1) [of x0 x'] guard nxt by simp
    ultimately have past: "endX < x'"
      using guard by linarith
    have "\<bar>x' - (x0 + 1 / 20)\<bar> \<le> 1 / 2 ^ 48"
      using step_rounded [of x0] guard nxt by auto
    with past have "endX < x0 + 1 / 20 + 1 / 2 ^ 48"
      by linarith
    then show ?thesis
      using unfold True by simp
  qed
qed

lemma scannedXs_clip:
  assumes "\<bar>mx - rr\<bar> < overflowLimit" and "\<bar>mx + rr\<bar> < overflowLimit"
    and "fl (mx - rr) = Num a" and "fl (mx + rr) = Num b"
  shows "scannedXs (jmax (Num (- 10)) (jsubRounded (Num mx) (Num rr)))
           (jmin (Num 10) (jaddRounded (Num mx) (Num rr)))
         = scanValues (min 10 b) (max (- 10) a)"
proof -
  have "ofReal (mx - rr) = Num (mx - rr)" and "ofReal (mx + rr) = Num (mx + rr)"
    using assms(1,2) by (auto simp: ofReal_def)
  then have "jsubRounded (Num mx) (Num rr) = Num a" and "jaddRounded (Num mx) (Num rr) = Num b"
    using assms(3,4) by (simp_all add: jsubRounded_def jaddRounded_def)
  then show ?thesis
    by (simp add: scannedXs_def jmax_def jmin_def min_def max_def)
qed

lemma sampleDistance_euclid:
  assumes "evaluate eq (Num x) = Some (Num y)"
    and "\<bar>x - mx\<bar> \<le> 100" and "\<bar>y - my\<bar> \<le> 100"
  shows "sampleDistance eq (Num mx) (Num my) x = Num (sqrt ((x - mx)\<^sup>2 + (y - my)\<^sup>2))"
proof -
  have sq: "\<bar>c * c\<bar> \<le> 10000" if "\<bar>c\<bar> \<le> 100" for c :: real
  proof -
    have "\<bar>c\<bar> * \<bar>c\<bar> \<le> 100 * 100"
      using that by (intro mult_mono) simp_all
    then show ?thesis
      by (simp add: abs_mult)
  qed
  have a: "\<bar>(x - mx) * (x - mx)\<bar> \<le> 10000" and b: "\<bar>(y - my) * (y - my)\<bar> \<le> 10000"
    using assms(2,3) by (simp_all only: sq)
  have small: "\<bar>x - mx\<bar> \<le> 1000000" "\<bar>y - my\<bar> \<le> 1000000"
    "\<bar>(x - mx) * (x - mx)\<bar> \<le> 1000000" "\<bar>(y - my) * (y - my)\<bar> \<le> 1000000"
    "\<bar>(x - mx) * (x - mx) + (y - my) * (y - my)\<bar> \<le> 1000000"
    using assms(2,3) a b by linarith+
  show ?thesis
    unfolding sampleDistance_def assms(1) jsub_def jsquare_def
    using small by (simp add: ofReal_small power2_eq_square)
qed

text \<open>Doubles between 8 and 16 in magnitude, and the scan at the right edge.\<close>

lemma floor_log2:
  assumes "0 < r" and "2 powr of_int e \<le> r" and "r < 2 powr (of_int e + 1)"
  shows "\<lfloor>log 2 r\<rfloor> = e"
proof (rule floor_unique)
  show "of_int e \<le> log 2 r"
    using assms by (simp add: le_log_iff)
  show "log 2 r < of_int e + 1"
    using assms by (simp add: log_less_iff)
qed

lemma ulp_between:
  assumes "0 < r" and "2 powr of_int e \<le> r" and "r < 2 powr (of_int e + 1)" and "- 1022 \<le> e"
  shows "ulp r = 2 powr (of_int e - 52)"
  using floor_log2 [OF assms(1-3)] assms(1,4) by (simp add: ulp_def max_def)

lemma fl_step: "fl (1 / 20) = Num (3602879701896397 / 72057594037927936)"
proof -
  have u: "ulp (1 / 20) = 1 / 2 ^ 57"
    using ulp_between [of "1 / 20" "- 5"] by (simp add: powr_neg_numeral)
  show ?thesis
    by (simp add: fl_def u roundEven_def Let_def)
qed

lemma fl_near_ten:
  assumes "8 \<le> \<bar>r\<bar>" and "\<bar>r\<bar> < 16"
  shows "fl r = ofReal (of_int (roundEven (r * 562949953421312)) / 562949953421312)"
proof -
  have "ulp \<bar>r\<bar> = 1 / 2 ^ 49"
    using ulp_between [of "\<bar>r\<bar>" 3] assms by (simp add: powr_neg_numeral)
  then have u: "ulp r = 1 / 2 ^ 49"
    by (simp add: ulp_def)
  show ?thesis
    using assms(1) by (auto simp: fl_def u)
qed

lemma scan_right_edge:
  "scanValues 10 (79 / 8) = [79 / 8, 2793639143853261 / 2 ^ 48, 1403856446344397 / 2 ^ 47]"
proof -
  have n1: "jaddRounded (Num (79 / 8)) (fl (1 / 20)) = Num (2793639143853261 / 281474976710656)"
    by (simp add: jaddRounded_def fl_step fl_near_ten roundEven_def Let_def)
  have n2: "jaddRounded (Num (2793639143853261 / 281474976710656)) (fl (1 / 20))
              = Num (1403856446344397 / 140737488355328)"
    by (simp add: jaddRounded_def fl_step fl_near_ten roundEven_def Let_def)
  have n3: "jaddRounded (Num (1403856446344397 / 140737488355328)) (fl (1 / 20))
              = Num (2821786641524327 / 281474976710656)"
    by (simp add: jaddRounded_def fl_step fl_near_ten roundEven_def Let_def)
  show ?thesis
    by (simp add: scanValues.simps [of 10] n1 n2 n3)
qed

lemma dist_on_axis: "\<bar>c\<bar> \<le> 100 \<Longrightarrow> jsqrt (jadd (jsquare (Num c)) (jsquare (Num 0))) = Num \<bar>c\<bar>"
proof -
  assume c: "\<bar>c\<bar> \<le> 100"
  have "\<bar>c\<bar> * \<bar>c\<bar> \<le> 100 * 100"
    using c by (intro mult_mono) simp_all
  then have "\<bar>c * c\<bar> \<le> 1000000"
    by (simp add: abs_mult)
  then show ?thesis
    by (simp add: jsquare_def)
qed




section \<open>Standstill\<close>

lemma minStep_settled:
  "(\<And>y. \<not> jlt (key y) d) \<Longrightarrow> fold (minStep ok key val) xs (v, d) = (v, d)"
  by (induction xs) (simp_all add: minStep_def)

lemma sampleDistance_not_negative: "\<not> jlt (sampleDistance eq marbleX marbleY x) (Num 0)"
  by (simp add: sampleDistance_def jsqrt_not_negative split: option.split)

text \<open>The curve \<open>cliff\<close> under the marble at \<open>(-10, 0)\<close>.\<close>

lemma cliff_closest:
  "findClosestPointOnPath PhysicsEngine_new edgeMarble cliff (Num 2)
     = Some \<lparr>cp_x = Num (- 10), cp_y = Num 0, cp_distance = Num 0\<rparr>"
proof -
  let ?ok = "sampleOK cliff" and ?key = "sampleDistance cliff (Num (- 10)) (Num 0)"
  have pos: "xcoord (position edgeMarble) = Num (- 10)" "ycoord (position edgeMarble) = Num 0"
    by (simp_all add: edgeMarble_def Marble_new_def)
  have "jsubRounded (Num (- 10)) (Num 2) = Num (- 12)"
    and "jaddRounded (Num (- 10)) (Num 2) = Num (- 8)"
    by (simp_all add: jsubRounded_def jaddRounded_def fl_near_ten roundEven_def Let_def)
  then have range: "scannedXs (jmax (Num (- 10)) (jsubRounded (Num (- 10)) (Num 2)))
                 (jmin (Num 10) (jaddRounded (Num (- 10)) (Num 2))) = scanValues (- 8) (- 10)"
    by (simp add: scannedXs_def jmax_def jmin_def)
  have "\<exists>rest. scanValues (- 8) (- 10) = - 10 # rest"
    by (simp add: scanValues_window)
  then obtain rest where xs: "scanValues (- 8) (- 10) = - 10 # rest"
    by blast
  have at: "evaluate cliff (Num (- 10)) = Some (Num 0)"
    by (simp add: cliff_def)
  have ok: "?ok (- 10)"
    by (simp add: sampleOK_def at)
  have key: "?key (- 10) = Num 0"
    by (simp add: sampleDistance_def at jsub_def jsquare_def)
  have "fold (minStep ?ok ?key Num) (scanValues (- 8) (- 10)) (Num (- 10), PosInf)
          = fold (minStep ?ok ?key Num) rest (Num (- 10), Num 0)"
    unfolding xs by (simp add: minStep_def ok key)
  also have "\<dots> = (Num (- 10), Num 0)"
    by (rule minStep_settled) (rule sampleDistance_not_negative)
  finally have "findClosestPointExplicitY PhysicsEngine_new edgeMarble cliff (Num 2)
     = Some \<lparr>cp_x = Num (- 10), cp_y = Num 0, cp_distance = Num 0\<rparr>"
    unfolding findClosestPointExplicitY_scan Let_def pos range by (simp add: at)
  moreover have "eqtype cliff = explicit_y"
    by (simp add: cliff_def)
  ultimately show ?thesis
    by (simp add: findClosestPointOnPath_def)
qed

lemma cliff_derivative:
  "calculateDerivative PhysicsEngine_new cliff (Num (- 10)) (Num 0.01) = PosInf"
proof -
  have big: "ofReal (10 ^ 307) = Num (10 ^ 307)" "ofReal (10 ^ 307 / 0.01) = PosInf"
    by (simp_all add: ofReal_def overflowLimit_def)
  have lo: "evaluate cliff (jsub (Num (- 10)) (Num 0.005)) = Some (Num 0)"
    and hi: "evaluate cliff (jadd (Num (- 10)) (Num 0.005)) = Some (Num (10 ^ 307))"
    by (simp_all add: cliff_def jsub_def)
  have "jsub (Num (10 ^ 307)) (Num 0) = Num (10 ^ 307)"
    using big(1) by (simp add: jsub_def)
  moreover have "jdiv (Num (10 ^ 307)) (Num 0.01) = PosInf"
    using big(2) by simp
  ultimately show ?thesis
    unfolding calculateDerivative_def half_step lo hi by simp
qed

lemma cliff_velocity:
  "calculatePathVelocity PhysicsEngine_new cliff (Num (- 10)) None = \<lparr>xcoord = Num 0, ycoord = NaN\<rparr>"
proof -
  have kind: "eqtype cliff = explicit_y"
    by (simp add: cliff_def)
  show ?thesis
    unfolding calculatePathVelocity_def Let_def cliff_derivative
    by (simp add: kind engine_fields)
qed

lemma cliff_selected:
  "selectBestPath PhysicsEngine_new (pushTrail edgeMarble) [cliff]
     = Some \<lparr>equation = cliff,
             closestPoint = \<lparr>cp_x = Num (- 10), cp_y = Num 0, cp_distance = Num 0\<rparr>,
             pd_distance = Num 0\<rparr>"
  unfolding selectBestPath_def candidatePathsOf_pushTrail
  by (simp add: candidatePathsOf_def cliff_closest findBestPathTowardStars_def)
     (simp add: edgeMarble_def Marble_new_def)

text \<open>
  C10, as the claim states it, fails in its positive form "at least one component has
  magnitude at least 0.001". The marble \<open>edgeMarble\<close> has the finite velocity \<open>(0, 0)\<close>
  and lies on the curve \<open>cliff\<close>, whose two half-step samples around \<open>x = -10\<close> are the
  finite values 0 and \<open>10\<^sup>3\<^sup>0\<^sup>7\<close>. Their central difference overflows to
  \<^verbatim>\<open>Infinity\<close>, the tangent is \<open>(0, NaN)\<close>, and the update ends with the velocity
  \<open>(0, NaN)\<close>: no comparison with NaN holds, so the nudge does not fire and neither
  component is at least 0.001 in magnitude.
\<close>

theorem update_leaves_NaN_velocity:
  "finiteVec (velocity edgeMarble)
   \<and> evaluate cliff (jsub (Num (- 10)) (Num 0.005)) = Some (Num 0)
   \<and> evaluate cliff (jadd (Num (- 10)) (Num 0.005)) = Some (Num (10 ^ 307))
   \<and> calculateDerivative PhysicsEngine_new cliff (Num (- 10)) (Num 0.01) = PosInf
   \<and> velocity (Marble_update PhysicsEngine_new [cliff] edgeMarble) = \<lparr>xcoord = Num 0, ycoord = NaN\<rparr>
   \<and> \<not> jge (jabs (xcoord (velocity (Marble_update PhysicsEngine_new [cliff] edgeMarble)))) (Num 0.001)
   \<and> \<not> jge (jabs (ycoord (velocity (Marble_update PhysicsEngine_new [cliff] edgeMarble)))) (Num 0.001)"
proof -
  have fin: "finiteVec (velocity edgeMarble)"
    by (simp add: finiteVec_def edgeMarble_def)
  have lo: "evaluate cliff (jsub (Num (- 10)) (Num 0.005)) = Some (Num 0)"
    and hi: "evaluate cliff (jadd (Num (- 10)) (Num 0.005)) = Some (Num (10 ^ 307))"
    by (simp_all add: cliff_def jsub_def)
  have fields: "velocity edgeMarble = \<lparr>xcoord = Num 0, ycoord = Num 0\<rparr>"
    "xcoord (position edgeMarble) = Num (- 10)" "\<not> onPath edgeMarble"
    by (simp_all add: edgeMarble_def Marble_new_def)
  have pre: "velocity (moveMarble PhysicsEngine_new [cliff] edgeMarble) = \<lparr>xcoord = Num 0, ycoord = NaN\<rparr>"
    unfolding moveMarble_velocity_followPath [OF cliff_selected] Let_def
    by (simp add: fields engine_fields jsub_def cliff_velocity)
  have v: "velocity (Marble_update PhysicsEngine_new [cliff] edgeMarble) = \<lparr>xcoord = Num 0, ycoord = NaN\<rparr>"
    by (simp add: Marble_update_def antiStall_velocity stalled_def pre)
  show ?thesis
    unfolding v using fin lo hi cliff_derivative by (simp add: jge_def)
qed

text \<open>
  C10, amended: after \<^verbatim>\<open>update\<close> it is never the case that both \<open>|velocity.x| < 0.001\<close>
  and \<open>|velocity.y| < 0.001\<close>. The nudge adds 0.01 to \<open>velocity.x\<close> exactly when both
  components are below 0.001 in magnitude after friction and the position update, and
  then leaves \<open>velocity.x\<close> in \<open>(0.009, 0.011)\<close>; otherwise it changes nothing. Whenever
  neither component of the resulting velocity is NaN, at least one of them has magnitude
  at least 0.001.
\<close>

theorem update_never_stalled:
  "\<not> stalled (Marble_update physics equations m)
   \<and> (stalled (moveMarble physics equations m) \<longrightarrow>
        velocity (Marble_update physics equations m) =
          \<lparr>xcoord = jadd (xcoord (velocity (moveMarble physics equations m))) (Num 0.01),
           ycoord = ycoord (velocity (moveMarble physics equations m))\<rparr>
        \<and> jlt (Num 0.009) (xcoord (velocity (Marble_update physics equations m)))
        \<and> jlt (xcoord (velocity (Marble_update physics equations m))) (Num 0.011))
   \<and> (\<not> stalled (moveMarble physics equations m) \<longrightarrow>
        velocity (Marble_update physics equations m) = velocity (moveMarble physics equations m))
   \<and> (\<not> isNaN (xcoord (velocity (Marble_update physics equations m)))
        \<and> \<not> isNaN (ycoord (velocity (Marble_update physics equations m))) \<longrightarrow>
        jge (jabs (xcoord (velocity (Marble_update physics equations m)))) (Num 0.001)
        \<or> jge (jabs (ycoord (velocity (Marble_update physics equations m)))) (Num 0.001))"
proof -
  let ?pre = "moveMarble physics equations m"
  let ?post = "Marble_update physics equations m"
  have a: "\<not> stalled ?post"
    by (simp add: Marble_update_def antiStall_not_stalled)
  have b: "velocity ?post =
          \<lparr>xcoord = jadd (xcoord (velocity ?pre)) (Num 0.01), ycoord = ycoord (velocity ?pre)\<rparr>
        \<and> jlt (Num 0.009) (xcoord (velocity ?post))
        \<and> jlt (xcoord (velocity ?post)) (Num 0.011)"
    if st: "stalled ?pre"
  proof -
    from st have "jlt (jabs (xcoord (velocity ?pre))) (Num 0.001)"
      by (simp add: stalled_def)
    from nudge_range [OF this] st show ?thesis
      by (simp add: Marble_update_def antiStall_velocity)
  qed
  have c: "velocity ?post = velocity ?pre" if "\<not> stalled ?pre"
    using that by (simp add: Marble_update_def antiStall_velocity)
  have d: "jge (jabs (xcoord (velocity ?post))) (Num 0.001)
        \<or> jge (jabs (ycoord (velocity ?post))) (Num 0.001)"
    if "\<not> isNaN (xcoord (velocity ?post)) \<and> \<not> isNaN (ycoord (velocity ?post))"
    using a that
    by (cases "xcoord (velocity ?post)"; cases "ycoord (velocity ?post)")
       (auto simp: stalled_def jge_def)
  from a b c d show ?thesis
    by blast
qed

theorem update_never_stalled_witness:
  "stalled (moveMarble (PhysicsEngine_new\<lparr>gravity := Num 0\<rparr>) [] restingMarble)
   \<and> velocity (Marble_update (PhysicsEngine_new\<lparr>gravity := Num 0\<rparr>) [] restingMarble)
       = \<lparr>xcoord = Num 0.01, ycoord = Num 0\<rparr>
   \<and> \<not> stalled (moveMarble PhysicsEngine_new [] (Marble_new (Num 0) (Num 0) ''blue''))
   \<and> velocity (Marble_update PhysicsEngine_new [] (Marble_new (Num 0) (Num 0) ''blue''))
       = \<lparr>xcoord = Num 0.048755, ycoord = Num (- 0.146265)\<rparr>
   \<and> jge (jabs (ycoord (velocity (Marble_update PhysicsEngine_new []
              (Marble_new (Num 0) (Num 0) ''blue''))))) (Num 0.001)"
proof -
  let ?zeroG = "PhysicsEngine_new\<lparr>gravity := Num 0\<rparr>"
  let ?fresh = "Marble_new (Num 0) (Num 0) ''blue''"
  have sel: "selectBestPath physics (pushTrail m) [] = None" for physics m
    by (simp add: selectBestPath_no_candidates candidatePathsOf_def)
  have v1: "velocity (moveMarble ?zeroG [] restingMarble) = \<lparr>xcoord = Num 0, ycoord = Num 0\<rparr>"
    unfolding moveMarble_velocity_freeFall [OF sel]
    by (simp add: restingMarble_def PhysicsEngine_new_def Marble_new_def)
  have v2: "velocity (moveMarble PhysicsEngine_new [] ?fresh)
              = \<lparr>xcoord = Num 0.048755, ycoord = Num (- 0.146265)\<rparr>"
    unfolding moveMarble_velocity_freeFall [OF sel]
    by (simp add: PhysicsEngine_new_def Marble_new_def)
  have s1: "stalled (moveMarble ?zeroG [] restingMarble)"
    by (simp add: stalled_def v1)
  have s2: "\<not> stalled (moveMarble PhysicsEngine_new [] ?fresh)"
    by (simp add: stalled_def v2)
  show ?thesis
    using update_never_stalled [of ?zeroG "[]" restingMarble]
      update_never_stalled [of PhysicsEngine_new "[]" ?fresh] s1 s2
    by (simp add: v1 v2 jge_def)
qed

section \<open>Path selection\<close>

lemma scoreStar_scoreValue:
  "scoreValue score \<Longrightarrow> scoreValue (scoreStar physics marble pd samplePoints s score)"
  by (simp add: scoreStar_def Let_def jgt_def scoreValue_jadd scoreValue_proximity scoreValue_heading)

lemma calculatePathScore_scoreValue: "scoreValue (calculatePathScore physics marble pd strs)"
proof -
  have "scoreValue (fold (scoreStar physics marble pd samplePoints) xs (Num 0))" for samplePoints xs
    by (rule fold_invariant [where Q = "\<lambda>s. True"]) (simp_all add: scoreStar_scoreValue scoreValue_zero)
  then show ?thesis
    by (simp add: calculatePathScore_def Let_def scoreValue_zero)
qed

lemma calculatePathScore_nonneg: "jle (Num 0) (calculatePathScore physics marble pd strs)"
  by (rule scoreValue_nonneg [OF calculatePathScore_scoreValue])

lemma nonneg_eligible: "jle (Num 0) a \<Longrightarrow> jlt (jneg a) PosInf"
  by (cases a) simp_all

lemma nonneg_not_less: "jle (Num 0) a \<Longrightarrow> jle (Num 0) b \<Longrightarrow> \<not> jlt b a \<Longrightarrow> jle a b"
  by (cases a; cases b) auto

lemma bestStep_minStep:
  "map_prod id jneg (bestStep physics marble strs pd st)
     = minStep (\<lambda>c. True) (\<lambda>c. jneg (calculatePathScore physics marble c strs)) Some pd
         (map_prod id jneg st)"
  by (cases st) (simp add: bestStep_def minStep_def Let_def jgt_def jlt_jneg)

lemma fold_bestStep:
  "map_prod id jneg (fold (bestStep physics marble strs) cs st)
     = fold (minStep (\<lambda>c. True) (\<lambda>c. jneg (calculatePathScore physics marble c strs)) Some) cs
         (map_prod id jneg st)"
  by (induction cs arbitrary: st) (simp_all add: bestStep_minStep)

text \<open>
  C4: \<^verbatim>\<open>findBestPathTowardStars\<close> returns None for an empty candidate list; for a
  single candidate it returns that candidate, whatever the marble and the stars, so no
  score takes part; for two or more candidates it returns the candidate of maximum
  score, and among candidates of equal score the first in input order, every earlier
  candidate having a strictly smaller score.
\<close>

theorem best_path_is_first_maximum:
  "findBestPathTowardStars physics marble [] strs = None
   \<and> findBestPathTowardStars physics marble [pd] strs = Some pd
   \<and> (2 \<le> length cs \<longrightarrow>
        (\<exists>k < length cs.
           findBestPathTowardStars physics marble cs strs = Some (cs ! k)
           \<and> (\<forall>j < length cs. jle (calculatePathScore physics marble (cs ! j) strs)
                                  (calculatePathScore physics marble (cs ! k) strs))
           \<and> (\<forall>j < k. jlt (calculatePathScore physics marble (cs ! j) strs)
                          (calculatePathScore physics marble (cs ! k) strs))))"
proof -
  let ?score = "\<lambda>c. calculatePathScore physics marble c strs"
  let ?key = "\<lambda>c. jneg (?score c)"
  have many: "\<exists>k < length cs.
           findBestPathTowardStars physics marble cs strs = Some (cs ! k)
           \<and> (\<forall>j < length cs. jle (?score (cs ! j)) (?score (cs ! k)))
           \<and> (\<forall>j < k. jlt (?score (cs ! j)) (?score (cs ! k)))"
    if len: "2 \<le> length cs"
  proof -
    have el: "eligible (\<lambda>c. True) ?key PosInf c" for c
      by (simp add: eligible_def nonneg_eligible calculatePathScore_nonneg)
    have "cs \<noteq> []"
      using len by auto
    then have "\<exists>c \<in> set cs. eligible (\<lambda>c. True) ?key PosInf c"
      using el by (cases cs) auto
    then obtain k where k: "firstMin (\<lambda>c. True) ?key PosInf cs k"
      and f: "fold (minStep (\<lambda>c. True) ?key Some) cs (None, PosInf) = (Some (cs ! k), ?key (cs ! k))"
      using fold_minStep [of cs "\<lambda>c. True" ?key PosInf Some None] by (auto simp only: if_True)
    have "map_prod id jneg (fold (bestStep physics marble strs) cs (None, NegInf))
            = (Some (cs ! k), ?key (cs ! k))"
      using fold_bestStep [of physics marble strs cs "(None, NegInf)"] f by simp
    then have "fst (fold (bestStep physics marble strs) cs (None, NegInf)) = Some (cs ! k)"
      by (cases "fold (bestStep physics marble strs) cs (None, NegInf)") simp
    then have res: "findBestPathTowardStars physics marble cs strs = Some (cs ! k)"
      using len by (simp add: findBestPathTowardStars_def)
    have klt: "k < length cs"
      using k by (simp add: firstMin_def)
    have le_all: "jle (?score (cs ! j)) (?score (cs ! k))" if "j < length cs" for j
    proof -
      have "\<not> jlt (?key (cs ! j)) (?key (cs ! k))"
        using k that el by (simp add: firstMin_def)
      then have "\<not> jlt (?score (cs ! k)) (?score (cs ! j))"
        by (simp add: jlt_jneg)
      then show ?thesis
        by (rule nonneg_not_less [OF calculatePathScore_nonneg calculatePathScore_nonneg])
    qed
    have lt_before: "jlt (?score (cs ! j)) (?score (cs ! k))" if "j < k" for j
    proof -
      have "jlt (?key (cs ! k)) (?key (cs ! j))"
        using k that el by (simp add: firstMin_def)
      then show ?thesis
        by (simp add: jlt_jneg)
    qed
    show ?thesis
    proof (intro exI [of _ k] conjI allI impI)
      show "k < length cs" by (rule klt)
      show "findBestPathTowardStars physics marble cs strs = Some (cs ! k)" by (rule res)
      show "jle (?score (cs ! j)) (?score (cs ! k))" if "j < length cs" for j
        using that by (rule le_all)
      show "jlt (?score (cs ! j)) (?score (cs ! k))" if "j < k" for j
        using that by (rule lt_before)
    qed
  qed
  have none: "findBestPathTowardStars physics marble [] strs = None"
    and one: "findBestPathTowardStars physics marble [pd] strs = Some pd"
    by (simp_all add: findBestPathTowardStars_def)
  show ?thesis
  proof (intro conjI impI)
    show "findBestPathTowardStars physics marble [] strs = None" by (rule none)
    show "findBestPathTowardStars physics marble [pd] strs = Some pd" by (rule one)
    show "\<exists>k < length cs.
           findBestPathTowardStars physics marble cs strs = Some (cs ! k)
           \<and> (\<forall>j < length cs. jle (?score (cs ! j)) (?score (cs ! k)))
           \<and> (\<forall>j < k. jlt (?score (cs ! j)) (?score (cs ! k)))"
      if "2 \<le> length cs"
      using that by (rule many)
  qed
qed

theorem best_path_is_first_maximum_witness:
  "findBestPathTowardStars PhysicsEngine_new (Marble_new (Num 0) (Num 0) ''blue'') twoPaths []
     = Some (twoPaths ! 0)"
  using best_path_is_first_maximum [of PhysicsEngine_new "Marble_new (Num 0) (Num 0) ''blue''" "[]"
      "twoPaths ! 0" twoPaths]
  by (auto simp: twoPaths_def calculatePathScore_def less_Suc_eq)

section \<open>Path score\<close>

lemma fold_jmin:
  "fold (\<lambda>p m. jmin m (f p)) xs a = jmin a (foldr (\<lambda>p m. jmin (f p) m) xs PosInf)"
  by (induction xs arbitrary: a) (simp_all add: jmin_PosInf_right jmin_assoc)

lemma jmin_PosInf_left: "jmin PosInf a = a"
  by (cases a) (simp_all add: jmin_def)

lemma calculatePathVelocity_default:
  "calculatePathVelocity physics eq x (Some (pathFollowSpeed physics))
     = calculatePathVelocity physics eq x None"
  by (simp add: calculatePathVelocity_def)

text \<open>
  Except on a curve \<open>x = f(y)\<close>, the samples of the code are the lookahead samples of
  the specification.
\<close>

lemma samples_over_x:
  "concat (map (\<lambda>i.
       let x = jadd startX (jmul (Num (real i)) (Num 0.25))
       in case evaluate eq x of
            None \<Rightarrow> []
          | Some y \<Rightarrow> if \<not> isNaN y \<and> isFinite y then [\<lparr>xcoord = x, ycoord = y\<rparr>] else []) ns)
   = List.map_filter (\<lambda>x. map_option (\<lambda>y. \<lparr>xcoord = x, ycoord = y\<rparr>) (finiteAt eq x))
       (map (\<lambda>i. jadd startX (jmul (Num (real i)) (Num 0.25))) ns)"
  by (induction ns)
     (auto simp: List.map_filter_simps finiteAt_def Let_def split: option.splits jsnum.splits)

lemma lookahead_step: "jdiv (Num 5) (Num (real 20)) = Num 0.25"
  by simp

lemma samplePathPoints_lookahead:
  "eqtype eq \<noteq> explicit_x \<Longrightarrow>
     lookaheadSamples eq mx = Some (samplePathPoints physics eq mx (Num 5) 20)"
proof -
  assume kind: "eqtype eq \<noteq> explicit_x"
  have count: "[0 ..< Suc 20] = [0 ..< 21]"
    by simp
  show ?thesis
    using kind
    unfolding samplePathPoints_def lookahead_step Let_def count lookaheadSamples_def
      lookaheadStops_def
    by (cases "eqtype eq")
       (simp_all only: samples_over_x [unfolded Let_def]
          eqkind.case eqkind.distinct simp_thms if_True if_False of_nat_numeral)
qed

text \<open>One star adds its two bonuses to the running score.\<close>

lemma scoreValue_bonus:
  "scoreValue (proximityBonus samples s)" "scoreValue (headingBonus marble tangent s)"
  by (simp_all add: proximityBonus_def headingBonus_def Let_def scoreValue_zero
      scoreValue_proximity scoreValue_heading jmul_commute [of "Num 10"])

lemma scoreStar_sum:
  assumes "scoreValue score"
  shows "scoreStar physics marble pd samples s score =
     jadd score (jadd (proximityBonus samples s)
                  (headingBonus marble
                     (calculatePathVelocity physics (equation pd) (cp_x (closestPoint pd)) None) s))"
proof -
  let ?tangent = "calculatePathVelocity physics (equation pd) (cp_x (closestPoint pd)) None"
  let ?d = "closestApproach samples s"
  let ?dot = "jadd (jmul (jsub (star_x s) (xcoord (position marble))) (xcoord ?tangent))
                   (jmul (jsub (star_y s) (ycoord (position marble))) (ycoord ?tangent))"
  let ?near = "jmul (jsub (Num 2) ?d) (Num 100)" and ?toward = "jmul ?dot (Num 10)"
  have approach: "fold (\<lambda>point m. jmin m (jsqrt (jadd (jsquare (jsub (xcoord point) (star_x s)))
                                        (jsquare (jsub (ycoord point) (star_y s))))))
              samples PosInf = ?d"
    using fold_jmin [of "starDistance s" samples PosInf]
    by (simp add: closestApproach_def starDistance_def jmin_PosInf_left)
  have code: "scoreStar physics marble pd samples s score =
     (let score1 = (if jlt ?d (Num 2) then jadd score ?near else score)
      in if jlt (Num 0) ?dot then jadd score1 ?toward else score1)"
    unfolding scoreStar_def approach by (simp add: Let_def jgt_def)
  have near: "scoreValue ?near" if "jlt ?d (Num 2)"
    using that by (rule scoreValue_proximity)
  have toward: "scoreValue ?toward" if "jlt (Num 0) ?dot"
    using that by (rule scoreValue_heading)
  have z: "scoreValue (Num 0)"
    by (rule scoreValue_zero)
  show ?thesis
  proof (cases "jlt ?d (Num 2)")
    case close: True
    show ?thesis
    proof (cases "jlt (Num 0) ?dot")
      case True
      then show ?thesis
        unfolding code using close
        by (simp add: proximityBonus_def headingBonus_def Let_def jmul_commute [of "Num 10"]
            scoreValue_assoc [OF assms near toward])
    next
      case False
      then show ?thesis
        unfolding code using close
        by (simp add: proximityBonus_def headingBonus_def Let_def
            scoreValue_zero_right [OF near])
    qed
  next
    case far: False
    show ?thesis
    proof (cases "jlt (Num 0) ?dot")
      case True
      then show ?thesis
        unfolding code using far
        by (simp add: proximityBonus_def headingBonus_def Let_def jmul_commute [of "Num 10"]
            scoreValue_zero_left [OF toward])
    next
      case False
      then show ?thesis
        unfolding code using far
        by (simp add: proximityBonus_def headingBonus_def Let_def
            scoreValue_zero_right [OF z] scoreValue_zero_right [OF assms])
    qed
  qed
qed

lemma fold_scoreStar:
  assumes "scoreValue a"
  shows "fold (scoreStar physics marble pd samples) xs a =
     jadd a (foldr (\<lambda>s total. jadd (jadd (proximityBonus samples s)
                (headingBonus marble
                   (calculatePathVelocity physics (equation pd) (cp_x (closestPoint pd)) None) s))
              total) xs (Num 0))"
  using assms
proof (induction xs arbitrary: a)
  case Nil
  then show ?case
    by (simp add: scoreValue_zero_right)
next
  case (Cons s xs)
  let ?tangent = "calculatePathVelocity physics (equation pd) (cp_x (closestPoint pd)) None"
  let ?bonus = "\<lambda>s. jadd (proximityBonus samples s) (headingBonus marble ?tangent s)"
  let ?rest = "foldr (\<lambda>s total. jadd (?bonus s) total) xs (Num 0)"
  have bonus: "scoreValue (?bonus t)" for t
    by (intro scoreValue_jadd scoreValue_bonus)
  have rest: "scoreValue ?rest"
    by (induction xs) (simp_all add: scoreValue_zero scoreValue_jadd bonus)
  have "fold (scoreStar physics marble pd samples) (s # xs) a
          = fold (scoreStar physics marble pd samples) xs (jadd a (?bonus s))"
    by (simp add: scoreStar_sum [OF Cons.prems])
  also have "\<dots> = jadd (jadd a (?bonus s)) ?rest"
    by (rule Cons.IH) (intro scoreValue_jadd Cons.prems bonus)
  also have "\<dots> = jadd a (jadd (?bonus s) ?rest)"
    by (rule scoreValue_assoc [OF Cons.prems bonus rest])
  finally show ?case
    by simp
qed

text \<open>The score of the level path toward the star on it.\<close>

lemma dist_level:
  "\<bar>c - 1\<bar> \<le> 100 \<Longrightarrow>
     jsqrt (jadd (jsquare (jsub (Num c) (Num 1))) (jsquare (jsub (Num 1) (Num 1)))) = Num \<bar>c - 1\<bar>"
proof -
  assume c: "\<bar>c - 1\<bar> \<le> 100"
  then have "ofReal (c - 1) = Num (c - 1)"
    by (intro ofReal_small) linarith
  then show ?thesis
    using dist_on_axis [OF c] by (simp add: jsub_def)
qed

lemma twenty_one:
  "[0 ..< Suc 20] = [0, 1, 2, 3, 4, 5, 6, 7, 8, 9, 10, 11, 12, 13, 14, 15, 16, 17, 18, 19, 20 :: nat]"
  by code_simp

lemma level_samples:
  "samplePathPoints PhysicsEngine_new constOne (Num 0) (Num 5) 20
     = map (\<lambda>i. \<lparr>xcoord = Num (real i * 0.25), ycoord = Num 1\<rparr>)
         [0, 1, 2, 3, 4, 5, 6, 7, 8, 9, 10, 11, 12, 13, 14, 15, 16, 17, 18, 19, 20 :: nat]"
proof -
  have kind: "eqtype constOne = explicit_y"
    by (simp add: constOne_def)
  show ?thesis
    unfolding samplePathPoints_def lookahead_step Let_def twenty_one
    by (simp add: kind) (simp add: constOne_def)
qed

lemma level_approach:
  "closestApproach (samplePathPoints PhysicsEngine_new constOne (Num 0) (Num 5) 20) starNear = Num 0"
  unfolding level_samples closestApproach_def starDistance_def
  by (simp add: starNear_def dist_level jmin_def)

lemma level_lookahead:
  "lookaheadSamples constOne (Num 0) = Some (samplePathPoints PhysicsEngine_new constOne (Num 0) (Num 5) 20)"
  by (rule samplePathPoints_lookahead) (simp add: constOne_def)

lemma level_velocity:
  "calculatePathVelocity PhysicsEngine_new constOne (Num 0) None = \<lparr>xcoord = Num 0.12, ycoord = Num 0\<rparr>"
  "calculatePathVelocity PhysicsEngine_new constOne (Num 0) (Some (Num 1)) = \<lparr>xcoord = Num 1, ycoord = Num 0\<rparr>"
  by (simp_all add: calculatePathVelocity_def calculateDerivative_def constOne_def jsub_def
      Let_def engine_fields truthy_def)

lemma level_fields:
  "equation levelPath = constOne" "cp_x (closestPoint levelPath) = Num 0"
  "xcoord (position (Marble_new (Num 0) (Num 1) ''blue'')) = Num 0"
  "ycoord (position (Marble_new (Num 0) (Num 1) ''blue'')) = Num 1"
  "star_x starNear = Num 1" "star_y starNear = Num 1" "\<not> collected starNear"
  by (simp_all add: levelPath_def Marble_new_def starNear_def)

lemma level_unit_reference:
  "referenceScore PhysicsEngine_new (Num 1) (Marble_new (Num 0) (Num 1) ''blue'') levelPath [starNear]
     = Some (Num 210)"
  unfolding referenceScore_def proximityBonus_def headingBonus_def Let_def level_fields(1-4)
    level_lookahead level_velocity(2)
  by (simp add: level_fields jsub_def level_approach)

lemma level_score:
  "calculatePathScore PhysicsEngine_new (Marble_new (Num 0) (Num 1) ''blue'') levelPath [starNear]
     = Num 201.2"
proof -
  have near: "fold (\<lambda>point m. jmin m (jsqrt (jadd (jsquare (jsub (xcoord point) (Num 1)))
                                        (jsquare (jsub (ycoord point) (Num 1))))))
              (samplePathPoints PhysicsEngine_new constOne (Num 0) (Num 5) 20) PosInf = Num 0"
    unfolding level_samples by (simp add: dist_level jmin_def)
  have "calculatePathScore PhysicsEngine_new (Marble_new (Num 0) (Num 1) ''blue'') levelPath [starNear]
          = scoreStar PhysicsEngine_new (Marble_new (Num 0) (Num 1) ''blue'') levelPath
              (samplePathPoints PhysicsEngine_new constOne (Num 0) (Num 5) 20) starNear (Num 0)"
    by (simp add: calculatePathScore_def level_fields)
  also have "\<dots> = Num 201.2"
    unfolding scoreStar_def Let_def level_fields near level_velocity(1)
    by (simp add: jsub_def jgt_def)
  finally show ?thesis .
qed

text \<open>The score of the vertical line toward the star on it.\<close>

lemma dist_upright:
  "\<bar>c\<bar> \<le> 100 \<Longrightarrow>
     jsqrt (jadd (jsquare (jsub (Num 1) (Num 1))) (jsquare (jsub (Num c) (Num 0)))) = Num \<bar>c\<bar>"
proof -
  assume c: "\<bar>c\<bar> \<le> 100"
  have "\<bar>c\<bar> * \<bar>c\<bar> \<le> 100 * 100"
    using c by (intro mult_mono) simp_all
  then have "\<bar>c * c\<bar> \<le> 1000000"
    by (simp add: abs_mult)
  moreover have "\<bar>c\<bar> \<le> 1000000"
    using c by linarith
  ultimately show ?thesis
    by (simp add: jsquare_def jsub_def)
qed

lemma upright_samples:
  "samplePathPoints PhysicsEngine_new upright (Num 0) (Num 5) 20
     = map (\<lambda>i. \<lparr>xcoord = Num 1, ycoord = Num (- 10 + real i * 0.25)\<rparr>)
         [0, 1, 2, 3, 4, 5, 6, 7, 8, 9, 10, 11, 12, 13, 14, 15, 16, 17, 18, 19, 20 :: nat]"
proof -
  have kind: "eqtype upright = explicit_x"
    by (simp add: upright_def)
  show ?thesis
    unfolding samplePathPoints_def lookahead_step Let_def twenty_one
    by (simp add: kind) (simp add: upright_def jge_def)
qed

lemma upright_velocity:
  "calculatePathVelocity PhysicsEngine_new upright (Num 1) None = \<lparr>xcoord = Num 0.12, ycoord = Num 0\<rparr>"
  by (simp add: calculatePathVelocity_def calculateDerivativeX_def upright_def jsub_def jne_def
      Let_def engine_fields)

lemma upright_fields:
  "equation uprightPath = upright" "cp_x (closestPoint uprightPath) = Num 1"
  "xcoord (position (Marble_new (Num 0) (Num 0) ''blue'')) = Num 0"
  "ycoord (position (Marble_new (Num 0) (Num 0) ''blue'')) = Num 0"
  "star_x starOnUpright = Num 1" "star_y starOnUpright = Num 0" "\<not> collected starOnUpright"
  by (simp_all add: uprightPath_def Marble_new_def starOnUpright_def)

lemma upright_score:
  "calculatePathScore PhysicsEngine_new (Marble_new (Num 0) (Num 0) ''blue'') uprightPath [starOnUpright]
     = Num 1.2"
proof -
  have far: "fold (\<lambda>point m. jmin m (jsqrt (jadd (jsquare (jsub (xcoord point) (Num 1)))
                                        (jsquare (jsub (ycoord point) (Num 0))))))
              (samplePathPoints PhysicsEngine_new upright (Num 0) (Num 5) 20) PosInf = Num 5"
    unfolding upright_samples by (simp add: dist_upright jmin_def)
  have "calculatePathScore PhysicsEngine_new (Marble_new (Num 0) (Num 0) ''blue'') uprightPath
            [starOnUpright]
          = scoreStar PhysicsEngine_new (Marble_new (Num 0) (Num 0) ''blue'') uprightPath
              (samplePathPoints PhysicsEngine_new upright (Num 0) (Num 5) 20) starOnUpright (Num 0)"
    by (simp add: calculatePathScore_def upright_fields)
  also have "\<dots> = Num 1.2"
    unfolding scoreStar_def Let_def upright_fields far upright_velocity
    by (simp add: jsub_def jgt_def)
  finally show ?thesis .
qed




end
